theory Spec2Isabelle
  imports Complex_Main "HOL-Library.Word"
begin

section \<open>JavaScript values\<close>

text \<open>
  The route handler (\<^verbatim>\<open>app/api/calculate/route.ts\<close>) and the Go module (\<^verbatim>\<open>main.go\<close>)
  exchange JavaScript values. A JavaScript Number is an IEEE double: the finite ones are
  modelled by the rational they denote, the three others by constructors of their own.
  Strings are byte lists (UTF-8); the only string operation of the source,
  \<^verbatim>\<open>startsWith\<close> with a literal, gives the same answer on UTF-8 bytes as on UTF-16 code
  units for well-formed strings.
\<close>

datatype jsnum = Fin rat | NaN | PosInf | NegInf

datatype jsval =
    JUndefined
  | JNull
  | JBool bool
  | JNumber jsnum
  | JString string
  | JArray "jsval list"
  | JObject "(string \<times> jsval) list"

definition bytes :: "nat list \<Rightarrow> string" where
  "bytes = map char_of"

definition starts_with :: "string \<Rightarrow> string \<Rightarrow> bool" where
  "starts_with s p = (take (length p) s = p)"

section \<open>The Go module: \<^verbatim>\<open>main.go\<close>\<close>

text \<open>
  With \<^verbatim>\<open>GOOS=js GOARCH=wasm\<close> Go's \<^verbatim>\<open>int\<close> has 64 bits and its addition wraps around.
\<close>

type_synonym goint = "64 word"

definition int64_range :: "int \<Rightarrow> bool" where
  "int64_range n \<longleftrightarrow> - (2 ^ 63) \<le> n \<and> n < 2 ^ 63"

text \<open>\<^verbatim>\<open>js.Value.Type()\<close>, as far as values that are data can have one.\<close>

datatype js_type =
  TypeUndefined | TypeNull | TypeBoolean | TypeNumber | TypeString | TypeObject

fun Value_Type :: "jsval \<Rightarrow> js_type" where
  "Value_Type JUndefined = TypeUndefined"
| "Value_Type JNull = TypeNull"
| "Value_Type (JBool _) = TypeBoolean"
| "Value_Type (JNumber _) = TypeNumber"
| "Value_Type (JString _) = TypeString"
| "Value_Type (JArray _) = TypeObject"
| "Value_Type (JObject _) = TypeObject"

text \<open>A Go panic: \<^verbatim>\<open>js.ValueError\<close> with the method and the type of the value.\<close>

datatype panic = ValueError string js_type

text \<open>Go's conversion of a float to \<^verbatim>\<open>int\<close> drops the fraction (towards zero).\<close>

definition trunc :: "rat \<Rightarrow> int" where
  "trunc r = (if 0 \<le> r then \<lfloor>r\<rfloor> else \<lceil>r\<rceil>)"

text \<open>
  \<^verbatim>\<open>js.Value.Int()\<close> is \<^verbatim>\<open>int(v.float("Value.Int"))\<close>: it panics on a value that is not a
  number, and truncates a number that fits. What Go's float-to-int conversion gives for a
  number that does not fit (or is NaN or infinite) depends on the implementation: it is
  the parameter \<open>oor\<close>, so that every theorem holds for each choice of it.
\<close>

definition Value_Int :: "(jsnum \<Rightarrow> goint) \<Rightarrow> jsval \<Rightarrow> panic + goint" where
  "Value_Int oor v =
     (case v of
        JNumber n \<Rightarrow>
          (case n of
             Fin r \<Rightarrow> if int64_range (trunc r) then Inr (word_of_int (trunc r)) else Inr (oor n)
           | _ \<Rightarrow> Inr (oor n))
      | _ \<Rightarrow> Inl (ValueError ''Value.Int'' (Value_Type v)))"

text \<open>
  \<^verbatim>\<open>js.ValueOf(x)\<close> for an \<^verbatim>\<open>int\<close> is the JavaScript number \<^verbatim>\<open>float64(x)\<close>: exact up to
  \<open>2 ^ 53\<close> in absolute value, rounded to 53 significant bits (ties to even) above.
\<close>

fun bit_length :: "nat \<Rightarrow> nat" where
  "bit_length n = (if n = 0 then 0 else Suc (bit_length (n div 2)))"

declare bit_length.simps [simp del]

definition float64_of_int :: "int \<Rightarrow> int" where
  "float64_of_int n =
     (if \<bar>n\<bar> \<le> 2 ^ 53 then n
      else
        let m = \<bar>n\<bar>;
            k = bit_length (nat m) - 53;
            q = m div 2 ^ k;
            r = m mod 2 ^ k;
            h = 2 ^ (k - 1);
            q' = (if h < r \<or> (r = h \<and> odd q) then q + 1 else q)
        in sgn n * (q' * 2 ^ k))"

definition ValueOf_int :: "goint \<Rightarrow> jsval" where
  "ValueOf_int x = JNumber (Fin (of_int (float64_of_int (sint x))))"

text \<open>
  The helper whose name is written in Japanese in the source (\<^verbatim>\<open>js.Value\<close> to \<^verbatim>\<open>int\<close>,
  safely), in Latin letters here: \<^verbatim>\<open>(0, false)\<close> unless the value is a number.
\<close>

definition anzen_ni_Int_ni_henkan ::
  "(jsnum \<Rightarrow> goint) \<Rightarrow> jsval \<Rightarrow> panic + (goint \<times> bool)" where
  "anzen_ni_Int_ni_henkan oor val =
     (if Value_Type val \<noteq> TypeNumber then Inr (0, False)
      else case Value_Int oor val of
             Inl p \<Rightarrow> Inl p
           | Inr num \<Rightarrow> Inr (num, True))"

text \<open>\<^verbatim>\<open>func add(this js.Value, args []js.Value) interface{}\<close>; \<open>Inl\<close> is a panic.\<close>

definition add :: "(jsnum \<Rightarrow> goint) \<Rightarrow> jsval list \<Rightarrow> panic + jsval" where
  "add oor args =
     (if length args \<noteq> 2 then Inr (JString ''Invalid number of arguments'')
      else case anzen_ni_Int_ni_henkan oor (args ! 0) of
             Inl p \<Rightarrow> Inl p
           | Inr (arg1, ok1) \<Rightarrow>
               if \<not> ok1 then Inr (JString ''Argument 1 is not a valid integer'')
               else (case anzen_ni_Int_ni_henkan oor (args ! 1) of
                       Inl p \<Rightarrow> Inl p
                     | Inr (arg2, ok2) \<Rightarrow>
                         if \<not> ok2 then Inr (JString ''Argument 2 is not a valid integer'')
                         else Inr (ValueOf_int (arg1 + arg2))))"

section \<open>The route handler: \<^verbatim>\<open>app/api/calculate/route.ts\<close>\<close>

subsection \<open>Thrown values, the module's state, the world outside\<close>

text \<open>
  A thrown value is an \<^verbatim>\<open>Error\<close> with its message, or something else, kept as the string
  \<^verbatim>\<open>String(value)\<close> gives (the two \<^verbatim>\<open>catch\<close> blocks ask \<^verbatim>\<open>instanceof Error\<close>).
\<close>

datatype thrown = ErrorObj string | NonError string

type_synonym jsfun = "jsval list \<Rightarrow> thrown + jsval"

type_synonym runtime = nat
type_synonym wasm_instance = nat

text \<open>
  The module-level variables \<^verbatim>\<open>goRuntimeInstance\<close> and \<^verbatim>\<open>wasmInstance\<close>, and the two
  properties of \<^verbatim>\<open>globalThis\<close> the code reads: \<open>g_Go\<close> says that \<^verbatim>\<open>typeof g.Go\<close> is not
  \<^verbatim>\<open>'undefined'\<close>, \<open>g_goAdd\<close> is \<open>Some f\<close> when \<^verbatim>\<open>typeof g.goAdd\<close> is \<^verbatim>\<open>'function'\<close>.
\<close>

record state =
  goRuntimeInstance :: "runtime option"
  wasmInstance :: "wasm_instance option"
  g_Go :: bool
  g_goAdd :: "jsfun option"

text \<open>
  What the Go program started by \<^verbatim>\<open>go.run(instance)\<close> does while the handler waits:
  it sets \<^verbatim>\<open>globalThis.goAdd\<close>, or the promise of \<^verbatim>\<open>run\<close> rejects. A background gives,
  for \<open>k = 1, 2, \<dots>\<close>, the events that happen before the \<open>k\<close>-th callback of the
  interval timer (for \<open>k = 1\<close>: since the call of \<^verbatim>\<open>run\<close>).
\<close>

datatype bg_event = Register jsfun | Reject thrown

type_synonym background = "nat \<Rightarrow> bg_event list"

text \<open>
  Everything \<^verbatim>\<open>initializeWasm\<close> asks of its environment: the file system, the execution
  of the bootstrap script (whether it defines \<^verbatim>\<open>globalThis.Go\<close>, and what it throws, if
  anything), \<^verbatim>\<open>new g.Go()\<close>, \<^verbatim>\<open>WebAssembly.instantiate\<close> and \<^verbatim>\<open>go.run\<close>.
\<close>

record world =
  readFile :: "string \<Rightarrow> thrown + string"
  runScript :: "string \<Rightarrow> bool \<times> thrown option"
  newGo :: "thrown + runtime"
  instantiate :: "string \<Rightarrow> runtime \<Rightarrow> thrown + wasm_instance"
  run :: "runtime \<Rightarrow> wasm_instance \<Rightarrow> background"

text \<open>
  What a call did to the world outside, in order. Console output is not modelled.
\<close>

datatype event =
    ReadFile string
  | RunScript
  | NewGo
  | Instantiate
  | RunModule
  | Tick nat
  | Call_goAdd "jsval list"

subsection \<open>The messages\<close>

text \<open>\<^verbatim>\<open>msg_no_Go\<close>: the message of the error thrown when \<^verbatim>\<open>g.Go\<close> is undefined.\<close>

definition msg_no_Go :: string where
  "msg_no_Go =
     ''Go''
     @ bytes [0xE3, 0x82, 0xB3, 0xE3, 0x83, 0xB3, 0xE3, 0x82, 0xB9, 0xE3, 0x83, 0x88,
       0xE3, 0x83, 0xA9, 0xE3, 0x82, 0xAF, 0xE3, 0x82, 0xBF, 0xE3, 0x81, 0x8C]
     @ ''globalThis''
     @ bytes [0xE4, 0xB8, 0x8A, 0xE3, 0x81, 0xA7, 0xE8, 0xA6, 0x8B, 0xE3, 0x81, 0xA4,
       0xE3, 0x81, 0x8B, 0xE3, 0x82, 0x8A, 0xE3, 0x81, 0xBE, 0xE3, 0x81, 0x9B,
       0xE3, 0x82, 0x93, 0xE3, 0x80, 0x82]
     @ ''wasm_exec.js''
     @ bytes [0xE3, 0x81, 0xAE, 0xE5, 0xAE, 0x9F, 0xE8, 0xA1, 0x8C, 0xE3, 0x81, 0xAB,
       0xE5, 0xA4, 0xB1, 0xE6, 0x95, 0x97, 0xE3, 0x81, 0x97, 0xE3, 0x81, 0x9F,
       0xE5, 0x8F, 0xAF, 0xE8, 0x83, 0xBD, 0xE6, 0x80, 0xA7, 0xE3, 0x81, 0x8C,
       0xE3, 0x81, 0x82, 0xE3, 0x82, 0x8A, 0xE3, 0x81, 0xBE, 0xE3, 0x81, 0x99,
       0xE3, 0x80, 0x82]"

text \<open>\<^verbatim>\<open>msg_timeout\<close>: the message of the error the readiness wait rejects with.\<close>

definition msg_timeout :: string where
  "msg_timeout =
     bytes [0xE3, 0x82, 0xBF, 0xE3, 0x82, 0xA4, 0xE3, 0x83, 0xA0, 0xE3, 0x82, 0xA2,
       0xE3, 0x82, 0xA6, 0xE3, 0x83, 0x88]
     @ '': ''
     @ bytes [0x27]
     @ ''goAdd''
     @ bytes [0x27, 0xE9, 0x96, 0xA2, 0xE6, 0x95, 0xB0, 0xE3, 0x81, 0xAE, 0xE6, 0xBA,
       0x96, 0xE5, 0x82, 0x99, 0xE5, 0xBE, 0x85, 0xE6, 0xA9, 0x9F, 0xE4, 0xB8,
       0xAD, 0xE3, 0x81, 0xAB, 0xE3, 0x82, 0xA8, 0xE3, 0x83, 0xA9, 0xE3, 0x83,
       0xBC, 0xE3, 0x81, 0x8C, 0xE7, 0x99, 0xBA, 0xE7, 0x94, 0x9F, 0xE3, 0x81,
       0x97, 0xE3, 0x81, 0xBE, 0xE3, 0x81, 0x97, 0xE3, 0x81, 0x9F, 0xE3, 0x80,
       0x82]
     @ ''Wasm''
     @ bytes [0xE3, 0x83, 0xA2, 0xE3, 0x82, 0xB8, 0xE3, 0x83, 0xA5, 0xE3, 0x83, 0xBC,
       0xE3, 0x83, 0xAB, 0xE3, 0x81, 0xAE, 0xE5, 0x88, 0x9D, 0xE6, 0x9C, 0x9F,
       0xE5, 0x8C, 0x96, 0xE3, 0x81, 0xAB, 0xE5, 0xA4, 0xB1, 0xE6, 0x95, 0x97,
       0xE3, 0x81, 0x97, 0xE3, 0x81, 0x9F, 0xE5, 0x8F, 0xAF, 0xE8, 0x83, 0xBD,
       0xE6, 0x80, 0xA7, 0xE3, 0x81, 0x8C, 0xE3, 0x81, 0x82, 0xE3, 0x82, 0x8A,
       0xE3, 0x81, 0xBE, 0xE3, 0x81, 0x99, 0xE3, 0x80, 0x82]"

text \<open>\<^verbatim>\<open>init_failed_prefix\<close>: what \<^verbatim>\<open>initializeWasm\<close> puts before the message it rethrows (with the space).\<close>

definition init_failed_prefix :: string where
  "init_failed_prefix =
     ''Wasm''
     @ bytes [0xE5, 0x88, 0x9D, 0xE6, 0x9C, 0x9F, 0xE5, 0x8C, 0x96, 0xE5, 0xA4, 0xB1,
       0xE6, 0x95, 0x97]
     @ '': ''"

text \<open>\<^verbatim>\<open>init_failed_marker\<close>: what the handler's \<^verbatim>\<open>catch\<close> looks for (without the space).\<close>

definition init_failed_marker :: string where
  "init_failed_marker =
     ''Wasm''
     @ bytes [0xE5, 0x88, 0x9D, 0xE6, 0x9C, 0x9F, 0xE5, 0x8C, 0x96, 0xE5, 0xA4, 0xB1,
       0xE6, 0x95, 0x97]
     @ '':''"

text \<open>\<^verbatim>\<open>msg_unavailable\<close>: the error of the 503 response.\<close>

definition msg_unavailable :: string where
  "msg_unavailable =
     ''Wasm''
     @ bytes [0xE3, 0x83, 0xA2, 0xE3, 0x82, 0xB8, 0xE3, 0x83, 0xA5, 0xE3, 0x83, 0xBC,
       0xE3, 0x83, 0xAB, 0xE3, 0x81, 0x8C, 0xE5, 0x88, 0xA9, 0xE7, 0x94, 0xA8,
       0xE3, 0x81, 0xA7, 0xE3, 0x81, 0x8D, 0xE3, 0x81, 0xBE, 0xE3, 0x81, 0x9B,
       0xE3, 0x82, 0x93, 0xE3, 0x80, 0x82, 0xE3, 0x82, 0xB5, 0xE3, 0x83, 0xBC,
       0xE3, 0x83, 0x90, 0xE3, 0x83, 0xBC, 0xE7, 0xAE, 0xA1, 0xE7, 0x90, 0x86,
       0xE8, 0x80, 0x85, 0xE3, 0x81, 0xAB, 0xE3, 0x81, 0x8A, 0xE5, 0x95, 0x8F,
       0xE3, 0x81, 0x84, 0xE5, 0x90, 0x88, 0xE3, 0x82, 0x8F, 0xE3, 0x81, 0x9B,
       0xE3, 0x81, 0x8F, 0xE3, 0x81, 0xA0, 0xE3, 0x81, 0x95, 0xE3, 0x81, 0x84,
       0xE3, 0x80, 0x82]"

text \<open>\<^verbatim>\<open>msg_invalid_input\<close>: the error of the 400 response of the handler's own check.\<close>

definition msg_invalid_input :: string where
  "msg_invalid_input =
     bytes [0xE7, 0x84, 0xA1, 0xE5, 0x8A, 0xB9, 0xE3, 0x81, 0xAA, 0xE5, 0x85, 0xA5,
       0xE5, 0x8A, 0x9B, 0xE3, 0x81, 0xA7, 0xE3, 0x81, 0x99, 0xE3, 0x80, 0x82,
       0x22]
     @ ''a''
     @ bytes [0x22, 0xE3, 0x81, 0xA8, 0x22]
     @ ''b''
     @ bytes [0x22, 0xE3, 0x81, 0xAF, 0xE6, 0x95, 0xB0, 0xE5, 0x80, 0xA4, 0xE3, 0x81,
       0xA7, 0xE3, 0x81, 0x82, 0xE3, 0x82, 0x8B, 0xE5, 0xBF, 0x85, 0xE8, 0xA6,
       0x81, 0xE3, 0x81, 0x8C, 0xE3, 0x81, 0x82, 0xE3, 0x82, 0x8A, 0xE3, 0x81,
       0xBE, 0xE3, 0x81, 0x99, 0xE3, 0x80, 0x82]"

text \<open>\<^verbatim>\<open>msg_unknown_error\<close>: the message used for a thrown value that is not an \<^verbatim>\<open>Error\<close>.\<close>

definition msg_unknown_error :: string where
  "msg_unknown_error =
     bytes [0xE4, 0xB8, 0x8D, 0xE6, 0x98, 0x8E, 0xE3, 0x81, 0xAA, 0xE3, 0x82, 0xA8,
       0xE3, 0x83, 0xA9, 0xE3, 0x83, 0xBC, 0xE3, 0x81, 0x8C, 0xE7, 0x99, 0xBA,
       0xE7, 0x94, 0x9F, 0xE3, 0x81, 0x97, 0xE3, 0x81, 0xBE, 0xE3, 0x81, 0x97,
       0xE3, 0x81, 0x9F, 0xE3, 0x80, 0x82]"

text \<open>\<^verbatim>\<open>msg_init_failed\<close>: the error of the 500 response for a failed initialization.\<close>

definition msg_init_failed :: string where
  "msg_init_failed =
     ''Wasm''
     @ bytes [0xE3, 0x83, 0xA2, 0xE3, 0x82, 0xB8, 0xE3, 0x83, 0xA5, 0xE3, 0x83, 0xBC,
       0xE3, 0x83, 0xAB, 0xE3, 0x81, 0xAE, 0xE5, 0x88, 0x9D, 0xE6, 0x9C, 0x9F,
       0xE5, 0x8C, 0x96, 0xE3, 0x81, 0xAB, 0xE5, 0xA4, 0xB1, 0xE6, 0x95, 0x97,
       0xE3, 0x81, 0x97, 0xE3, 0x81, 0xBE, 0xE3, 0x81, 0x97, 0xE3, 0x81, 0x9F,
       0xE3, 0x80, 0x82, 0xE8, 0xA9, 0xB3, 0xE7, 0xB4, 0xB0, 0xE3, 0x81, 0xAF,
       0xE3, 0x82, 0xB5, 0xE3, 0x83, 0xBC, 0xE3, 0x83, 0x90, 0xE3, 0x83, 0xBC,
       0xE3, 0x83, 0xAD, 0xE3, 0x82, 0xB0, 0xE3, 0x82, 0x92, 0xE3, 0x81, 0x94,
       0xE7, 0xA2, 0xBA, 0xE8, 0xAA, 0x8D, 0xE3, 0x81, 0x8F, 0xE3, 0x81, 0xA0,
       0xE3, 0x81, 0x95, 0xE3, 0x81, 0x84, 0xE3, 0x80, 0x82]"

text \<open>\<^verbatim>\<open>msg_internal_error\<close>: the error of the generic 500 response.\<close>

definition msg_internal_error :: string where
  "msg_internal_error =
     bytes [0xE5, 0x86, 0x85, 0xE9, 0x83, 0xA8, 0xE3, 0x82, 0xB5, 0xE3, 0x83, 0xBC,
       0xE3, 0x83, 0x90, 0xE3, 0x83, 0xBC, 0xE3, 0x82, 0xA8, 0xE3, 0x83, 0xA9,
       0xE3, 0x83, 0xBC, 0xE3, 0x81, 0x8C, 0xE7, 0x99, 0xBA, 0xE7, 0x94, 0x9F,
       0xE3, 0x81, 0x97, 0xE3, 0x81, 0xBE, 0xE3, 0x81, 0x97, 0xE3, 0x81, 0x9F,
       0xE3, 0x80, 0x82, 0xE5, 0x87, 0xA6, 0xE7, 0x90, 0x86, 0xE4, 0xB8, 0xAD,
       0xE3, 0x81, 0xAB, 0xE4, 0xBA, 0x88, 0xE6, 0x9C, 0x9F, 0xE3, 0x81, 0x9B,
       0xE3, 0x81, 0xAC, 0xE5, 0x95, 0x8F, 0xE9, 0xA1, 0x8C, 0xE3, 0x81, 0x8C,
       0xE7, 0x99, 0xBA, 0xE7, 0x94, 0x9F, 0xE3, 0x81, 0x97, 0xE3, 0x81, 0xBE,
       0xE3, 0x81, 0x97, 0xE3, 0x81, 0x9F, 0xE3, 0x80, 0x82]"


subsection \<open>\<^verbatim>\<open>initializeWasm\<close>\<close>

definition timeout :: nat where
  "timeout = 5000"

definition checkIntervalMs :: nat where
  "checkIntervalMs = 50"

text \<open>
  The handler given to \<^verbatim>\<open>.catch\<close> on the promise of \<^verbatim>\<open>run\<close> clears \<^verbatim>\<open>wasmInstance\<close>;
  the Go program's \<^verbatim>\<open>registerCallbacks\<close> sets \<^verbatim>\<open>goAdd\<close>.
\<close>

fun apply_bg :: "bg_event \<Rightarrow> state \<Rightarrow> state" where
  "apply_bg (Register f) s = s\<lparr>g_goAdd := Some f\<rparr>"
| "apply_bg (Reject err) s = s\<lparr>wasmInstance := None\<rparr>"

text \<open>
  The callback of \<^verbatim>\<open>setInterval\<close>, from its \<open>k\<close>-th run on, with the value of
  \<^verbatim>\<open>elapsedTime\<close> before that run: the promise resolves (\<open>Inr\<close>) or rejects (\<open>Inl\<close>).
\<close>

function wait_goAdd ::
  "background \<Rightarrow> nat \<Rightarrow> nat \<Rightarrow> state \<Rightarrow> (thrown + unit) \<times> state \<times> event list" where
  "wait_goAdd bg k elapsedTime s =
     (let s1 = fold apply_bg (bg k) s in
      if g_goAdd s1 \<noteq> None then (Inr (), s1, [Tick k])
      else
        let elapsedTime' = elapsedTime + checkIntervalMs in
        if timeout \<le> elapsedTime'
        then (Inl (ErrorObj msg_timeout), s1\<lparr>wasmInstance := None\<rparr>, [Tick k])
        else
          (case wait_goAdd bg (Suc k) elapsedTime' s1 of
             (r, s2, tr) \<Rightarrow> (r, s2, Tick k # tr)))"
  by pat_completeness auto
termination
  by (relation "measure (\<lambda>(bg, k, elapsedTime, s). timeout - elapsedTime)")
     (auto simp: checkIntervalMs_def)

declare wait_goAdd.simps [simp del]

text \<open>The body of the \<^verbatim>\<open>try\<close> block, from the instantiation on.\<close>

definition start_module ::
  "world \<Rightarrow> runtime \<Rightarrow> state \<Rightarrow> (thrown + unit) \<times> state \<times> event list" where
  "start_module w rt s =
     (case readFile w ''./public/main.go.wasm'' of
        Inl err \<Rightarrow> (Inl err, s, [ReadFile ''./public/main.go.wasm''])
      | Inr wasmBytes \<Rightarrow>
          (case instantiate w wasmBytes rt of
             Inl err \<Rightarrow> (Inl err, s, [ReadFile ''./public/main.go.wasm'', Instantiate])
           | Inr inst \<Rightarrow>
               (case wait_goAdd (run w rt inst) 1 0 (s\<lparr>wasmInstance := Some inst\<rparr>) of
                  (r, s', tr) \<Rightarrow>
                    (r, s', [ReadFile ''./public/main.go.wasm'', Instantiate, RunModule] @ tr))))"

text \<open>The body of the \<^verbatim>\<open>try\<close> block.\<close>

definition try_initialize ::
  "world \<Rightarrow> state \<Rightarrow> (thrown + unit) \<times> state \<times> event list" where
  "try_initialize w s =
     (case readFile w ''./public/wasm_exec.js'' of
        Inl err \<Rightarrow> (Inl err, s, [ReadFile ''./public/wasm_exec.js''])
      | Inr wasmExecContent \<Rightarrow>
          (case runScript w wasmExecContent of
             (defines_Go, thrown_by_script) \<Rightarrow>
               let s1 = s\<lparr>g_Go := g_Go s \<or> defines_Go\<rparr>;
                   tr = [ReadFile ''./public/wasm_exec.js'', RunScript]
               in
               (case thrown_by_script of
                  Some err \<Rightarrow> (Inl err, s1, tr)
                | None \<Rightarrow>
                    if \<not> g_Go s1 then (Inl (ErrorObj msg_no_Go), s1, tr)
                    else
                      (case newGo w of
                         Inl err \<Rightarrow> (Inl err, s1, tr @ [NewGo])
                       | Inr rt \<Rightarrow>
                           (case start_module w rt (s1\<lparr>goRuntimeInstance := Some rt\<rparr>) of
                              (r, s', tr') \<Rightarrow> (r, s', tr @ [NewGo] @ tr'))))))"

text \<open>\<^verbatim>\<open>error instanceof Error ? error.message : String(error)\<close>\<close>

fun message_or_String :: "thrown \<Rightarrow> string" where
  "message_or_String (ErrorObj m) = m"
| "message_or_String (NonError str) = str"

definition initializeWasm ::
  "world \<Rightarrow> state \<Rightarrow> (thrown + unit) \<times> state \<times> event list" where
  "initializeWasm w s =
     (if wasmInstance s \<noteq> None then (Inr (), s, [])
      else
        (case try_initialize w s of
           (Inl err, s', tr) \<Rightarrow>
             (Inl (ErrorObj (init_failed_prefix @ message_or_String err)),
              s'\<lparr>wasmInstance := None\<rparr>, tr)
         | (Inr u, s', tr) \<Rightarrow> (Inr u, s', tr)))"

subsection \<open>\<^verbatim>\<open>POST\<close>\<close>

text \<open>
  A request is what \<^verbatim>\<open>await request.json()\<close> gives: the parsed body, or the thrown error.
  A response is the status and the object given to \<^verbatim>\<open>NextResponse.json\<close>.
\<close>

record request =
  json :: "thrown + jsval"

record response =
  status :: nat
  body :: "(string \<times> jsval) list"

text \<open>
  \<^verbatim>\<open>const { a, b } = body\<close>: a \<^verbatim>\<open>TypeError\<close> on \<^verbatim>\<open>null\<close> and \<^verbatim>\<open>undefined\<close>; a property an
  object does not have is \<^verbatim>\<open>undefined\<close>, and no array, string, number or boolean has a
  property \<^verbatim>\<open>a\<close> or \<^verbatim>\<open>b\<close>. The list of a \<open>JObject\<close> is read from the front. The text of
  the \<^verbatim>\<open>TypeError\<close> is the engine's and is shortened here.
\<close>

definition get_property :: "jsval \<Rightarrow> string \<Rightarrow> jsval" where
  "get_property v key =
     (case v of
        JObject props \<Rightarrow> (case map_of props key of Some x \<Rightarrow> x | None \<Rightarrow> JUndefined)
      | _ \<Rightarrow> JUndefined)"

definition destructure_a_b :: "jsval \<Rightarrow> thrown + (jsval \<times> jsval)" where
  "destructure_a_b v =
     (if v = JNull \<or> v = JUndefined
      then Inl (ErrorObj ''Cannot destructure property of null or undefined'')
      else Inr (get_property v ''a'', get_property v ''b''))"

text \<open>\<^verbatim>\<open>typeof v === 'number'\<close>\<close>

fun typeof_number :: "jsval \<Rightarrow> bool" where
  "typeof_number (JNumber _) = True"
| "typeof_number _ = False"

text \<open>\<^verbatim>\<open>typeof result === 'string' && result.startsWith("Invalid")\<close>\<close>

fun invalid_string :: "jsval \<Rightarrow> bool" where
  "invalid_string (JString str) = starts_with str ''Invalid''"
| "invalid_string _ = False"

text \<open>The \<^verbatim>\<open>catch\<close> block of the handler.\<close>

definition handle_error :: "thrown \<Rightarrow> response" where
  "handle_error err =
     (let errorMessage = (case err of ErrorObj m \<Rightarrow> m | NonError _ \<Rightarrow> msg_unknown_error) in
      if starts_with errorMessage init_failed_marker
      then \<lparr>status = 500,
            body = [(''error'', JString msg_init_failed), (''details'', JString errorMessage)]\<rparr>
      else \<lparr>status = 500,
            body = [(''error'', JString msg_internal_error),
                    (''details'', JString errorMessage)]\<rparr>)"

text \<open>
  \<^verbatim>\<open>!wasmInstance || typeof g.goAdd !== 'function'\<close> is the negation of \<open>ready\<close>.
\<close>

definition ready :: "state \<Rightarrow> bool" where
  "ready s \<longleftrightarrow> wasmInstance s \<noteq> None \<and> g_goAdd s \<noteq> None"

text \<open>The handler, from \<^verbatim>\<open>await request.json()\<close> on, with the function found in \<^verbatim>\<open>g.goAdd\<close>.\<close>

definition calculate :: "jsfun \<Rightarrow> request \<Rightarrow> response \<times> event list" where
  "calculate goAdd req =
     (case json req of
        Inl err \<Rightarrow> (handle_error err, [])
      | Inr parsed \<Rightarrow>
          (case destructure_a_b parsed of
             Inl err \<Rightarrow> (handle_error err, [])
           | Inr (a, b) \<Rightarrow>
               if \<not> typeof_number a \<or> \<not> typeof_number b
               then (\<lparr>status = 400, body = [(''error'', JString msg_invalid_input)]\<rparr>, [])
               else
                 (case goAdd [a, b] of
                    Inl err \<Rightarrow> (handle_error err, [Call_goAdd [a, b]])
                  | Inr result \<Rightarrow>
                      if invalid_string result
                      then (\<lparr>status = 400, body = [(''error'', result)]\<rparr>, [Call_goAdd [a, b]])
                      else (\<lparr>status = 200, body = [(''result'', result)]\<rparr>,
                            [Call_goAdd [a, b]]))))"

definition POST :: "world \<Rightarrow> request \<Rightarrow> state \<Rightarrow> response \<times> state \<times> event list" where
  "POST w req s =
     (case (if \<not> ready s then initializeWasm w s else (Inr (), s, [])) of
        (Inl err, s1, tr) \<Rightarrow> (handle_error err, s1, tr)
      | (Inr u, s1, tr) \<Rightarrow>
          (case (wasmInstance s1, g_goAdd s1) of
             (Some inst, Some goAdd) \<Rightarrow>
               (case calculate goAdd req of (resp, tr') \<Rightarrow> (resp, s1, tr @ tr'))
           | _ \<Rightarrow>
               (\<lparr>status = 503, body = [(''error'', JString msg_unavailable)]\<rparr>, s1, tr)))"

subsection \<open>The module behind \<^verbatim>\<open>goAdd\<close>\<close>

text \<open>
  \<^verbatim>\<open>js.Global().Set("goAdd", js.FuncOf(add))\<close>: JavaScript calls \<^verbatim>\<open>add\<close> with its
  arguments. A panic of the Go function would end the Go program; the caller sees it as
  a thrown value here.
\<close>

definition FuncOf :: "(jsval list \<Rightarrow> panic + jsval) \<Rightarrow> jsfun" where
  "FuncOf f args = (case f args of Inl p \<Rightarrow> Inl (NonError ''panic'') | Inr v \<Rightarrow> Inr v)"

text \<open>
  An integer that the Go \<^verbatim>\<open>int\<close> and the JavaScript number both hold exactly.
\<close>

definition host_integer :: "int \<Rightarrow> bool" where
  "host_integer n \<longleftrightarrow> int64_range n \<and> float64_of_int n = n"

text \<open>The number of timer callbacks a call has run.\<close>

fun is_Tick :: "event \<Rightarrow> bool" where
  "is_Tick (Tick _) = True"
| "is_Tick _ = False"

definition ticks :: "event list \<Rightarrow> nat" where
  "ticks tr = length (filter is_Tick tr)"

section \<open>Example states and worlds\<close>

text \<open>
  A process that has not initialized the module, a process in which it is ready with
  the function \<open>f\<close> behind \<^verbatim>\<open>goAdd\<close>, a world in which every step up to \<^verbatim>\<open>go.run\<close> succeeds
  and the Go program behaves as the background \<open>bg\<close>, and a world without readable files.
\<close>

definition cold_state :: state where
  "cold_state = \<lparr>goRuntimeInstance = None, wasmInstance = None, g_Go = False, g_goAdd = None\<rparr>"

definition ready_state :: "jsfun \<Rightarrow> state" where
  "ready_state f =
     \<lparr>goRuntimeInstance = Some 1, wasmInstance = Some 1, g_Go = True, g_goAdd = Some f\<rparr>"

definition healthy_world :: "background \<Rightarrow> world" where
  "healthy_world bg =
     \<lparr>readFile = (\<lambda>path. Inr ''contents''),
      runScript = (\<lambda>content. (True, None)),
      newGo = Inr 1,
      instantiate = (\<lambda>wasmBytes rt. Inr 1),
      run = (\<lambda>rt inst. bg)\<rparr>"

definition no_files_world :: world where
  "no_files_world = (healthy_world (\<lambda>k. []))\<lparr>readFile := (\<lambda>path. Inl (ErrorObj ''ENOENT''))\<rparr>"

section \<open>The readiness wait\<close>

lemma fold_apply_bg_wasmInstance_None:
  "wasmInstance s = None \<Longrightarrow> wasmInstance (fold apply_bg evs s) = None"
proof (induction evs arbitrary: s)
  case Nil
  then show ?case by simp
next
  case (Cons ev evs)
  then show ?case by (cases ev) simp_all
qed

lemma fold_apply_bg_Reject:
  "Reject x \<in> set evs \<Longrightarrow> wasmInstance (fold apply_bg evs s) = None"
proof (induction evs arbitrary: s)
  case Nil
  then show ?case by simp
next
  case (Cons ev evs)
  show ?case
  proof (cases "ev = Reject x")
    case True
    then show ?thesis by (simp add: fold_apply_bg_wasmInstance_None)
  next
    case False
    with Cons show ?thesis by simp
  qed
qed

lemma fold_apply_bg_no_Register:
  "\<forall>f. Register f \<notin> set evs \<Longrightarrow> g_goAdd (fold apply_bg evs s) = g_goAdd s"
proof (induction evs arbitrary: s)
  case Nil
  then show ?case by simp
next
  case (Cons ev evs)
  then show ?case by (cases ev) auto
qed

lemma wait_goAdd_induct [consumes 1, case_names resolve expire step]:
  assumes run: "wait_goAdd bg k e s = (r, s', tr)"
    and resolve: "\<And>bg k e s. g_goAdd (fold apply_bg (bg k) s) \<noteq> None \<Longrightarrow>
            P bg k e s (Inr ()) (fold apply_bg (bg k) s) [Tick k]"
    and expire: "\<And>bg k e s. g_goAdd (fold apply_bg (bg k) s) = None \<Longrightarrow>
            timeout \<le> e + checkIntervalMs \<Longrightarrow>
            P bg k e s (Inl (ErrorObj msg_timeout))
              ((fold apply_bg (bg k) s)\<lparr>wasmInstance := None\<rparr>) [Tick k]"
    and step: "\<And>bg k e s r s' tr. g_goAdd (fold apply_bg (bg k) s) = None \<Longrightarrow>
            \<not> timeout \<le> e + checkIntervalMs \<Longrightarrow>
            wait_goAdd bg (Suc k) (e + checkIntervalMs) (fold apply_bg (bg k) s) = (r, s', tr) \<Longrightarrow>
            P bg (Suc k) (e + checkIntervalMs) (fold apply_bg (bg k) s) r s' tr \<Longrightarrow>
            P bg k e s r s' (Tick k # tr)"
  shows "P bg k e s r s' tr"
  using run
proof (induction bg k e s arbitrary: r s' tr rule: wait_goAdd.induct)
  case (1 bg k e s)
  let ?s1 = "fold apply_bg (bg k) s"
  show ?case
  proof (cases "g_goAdd ?s1 \<noteq> None")
    case True
    with "1.prems" have "r = Inr ()" "s' = ?s1" "tr = [Tick k]"
      by (subst (asm) wait_goAdd.simps, simp add: Let_def)+
    with resolve [where bg=bg and k=k and s=s and e=e, OF True] show ?thesis by simp
  next
    case False
    then have unset: "g_goAdd ?s1 = None" by simp
    show ?thesis
    proof (cases "timeout \<le> e + checkIntervalMs")
      case True
      with unset "1.prems" have "r = Inl (ErrorObj msg_timeout)"
        "s' = ?s1\<lparr>wasmInstance := None\<rparr>" "tr = [Tick k]"
        by (subst (asm) wait_goAdd.simps, simp add: Let_def)+
      with expire [where bg=bg and k=k and s=s and e=e, OF unset True] show ?thesis by simp
    next
      case late: False
      obtain r2 s2 tr2 where
        rec: "wait_goAdd bg (Suc k) (e + checkIntervalMs) ?s1 = (r2, s2, tr2)"
        by (cases "wait_goAdd bg (Suc k) (e + checkIntervalMs) ?s1") auto
      from unset late rec "1.prems" have eq: "r = r2" "s' = s2" "tr = Tick k # tr2"
        by (subst (asm) (2) wait_goAdd.simps, simp add: Let_def)+
      have "P bg (Suc k) (e + checkIntervalMs) ?s1 r2 s2 tr2"
        using "1.IH" [OF refl False refl late rec] .
      with step [where bg=bg and k=k and s=s and e=e, OF unset late rec] eq show ?thesis by simp
    qed
  qed
qed

lemma wait_goAdd_resolved:
  "wait_goAdd bg k e s = (r, s', tr) \<Longrightarrow> r = Inr u \<Longrightarrow> g_goAdd s' \<noteq> None"
  by (induction rule: wait_goAdd_induct) simp_all

lemma wait_goAdd_rejected:
  "wait_goAdd bg k e s = (r, s', tr) \<Longrightarrow> r = Inl x \<Longrightarrow>
     x = ErrorObj msg_timeout \<and> wasmInstance s' = None"
  by (induction rule: wait_goAdd_induct) auto

lemma wait_goAdd_keeps_None:
  "wait_goAdd bg k e s = (r, s', tr) \<Longrightarrow> wasmInstance s = None \<Longrightarrow> wasmInstance s' = None"
  by (induction rule: wait_goAdd_induct) (simp_all add: fold_apply_bg_wasmInstance_None)

lemma wait_goAdd_Reject:
  "wait_goAdd bg k e s = (r, s', tr) \<Longrightarrow> Tick j \<in> set tr \<Longrightarrow> Reject x \<in> set (bg j) \<Longrightarrow>
     wasmInstance s' = None"
proof (induction rule: wait_goAdd_induct)
  case (resolve bg k e s)
  then show ?case by (simp add: fold_apply_bg_Reject)
next
  case (expire bg k e s)
  then show ?case by simp
next
  case (step bg k e s r s' tr)
  show ?case
  proof (cases "j = k")
    case True
    with step.prems have "wasmInstance (fold apply_bg (bg k) s) = None"
      by (simp add: fold_apply_bg_Reject)
    with step.hyps(3) show ?thesis by (rule wait_goAdd_keeps_None)
  next
    case False
    with step show ?thesis by simp
  qed
qed

lemma wait_goAdd_ticks:
  "wait_goAdd bg k e s = (r, s', tr) \<Longrightarrow> e \<le> timeout \<Longrightarrow>
     ticks tr = length tr \<and> ticks tr * checkIntervalMs + e \<le> timeout + checkIntervalMs"
  by (induction rule: wait_goAdd_induct) (auto simp: ticks_def)

lemma wait_goAdd_not_early:
  "wait_goAdd bg k e s = (r, s', tr) \<Longrightarrow> r = Inl x \<Longrightarrow>
     timeout \<le> ticks tr * checkIntervalMs + e"
  by (induction rule: wait_goAdd_induct) (auto simp: ticks_def)

lemma wait_goAdd_never_registered:
  "wait_goAdd bg k e s = (r, s', tr) \<Longrightarrow> g_goAdd s = None \<Longrightarrow>
     \<forall>j f. Register f \<notin> set (bg j) \<Longrightarrow> r = Inl (ErrorObj msg_timeout)"
  by (induction rule: wait_goAdd_induct) (simp_all add: fold_apply_bg_no_Register)

section \<open>The initialization sequence\<close>

lemma ticks_append: "ticks (xs @ ys) = ticks xs + ticks ys"
  by (simp add: ticks_def)

lemma ticks_Cons: "ticks (ev # tr) = (if is_Tick ev then Suc (ticks tr) else ticks tr)"
  by (simp add: ticks_def)

lemma ticks_Nil: "ticks [] = 0"
  by (simp add: ticks_def)

lemma start_module_resolved:
  "start_module w rt s = (Inr u, s', tr) \<Longrightarrow> g_goAdd s' \<noteq> None"
  unfolding start_module_def
  by (auto split: sum.splits prod.splits dest: wait_goAdd_resolved)

lemma try_initialize_resolved:
  "try_initialize w s = (Inr u, s', tr) \<Longrightarrow> g_goAdd s' \<noteq> None"
  unfolding try_initialize_def Let_def
  by (auto split: sum.splits prod.splits option.splits if_splits dest: start_module_resolved)

lemma initializeWasm_thrown:
  "initializeWasm w s = (Inl x, s', tr) \<Longrightarrow> wasmInstance s' = None"
  unfolding initializeWasm_def
  by (auto split: sum.splits prod.splits if_splits)

lemma initializeWasm_together:
  "wasmInstance s = None \<Longrightarrow> initializeWasm w s = (r, s', tr) \<Longrightarrow> wasmInstance s' \<noteq> None \<Longrightarrow>
     r = Inr () \<and> g_goAdd s' \<noteq> None"
  unfolding initializeWasm_def
  by (auto split: sum.splits prod.splits if_splits dest: try_initialize_resolved)

lemma initializeWasm_skip:
  "wasmInstance s \<noteq> None \<Longrightarrow> initializeWasm w s = (Inr (), s, [])"
  by (simp add: initializeWasm_def)

lemma start_module_ticks:
  "start_module w rt s = (r, s', tr) \<Longrightarrow> ticks tr * checkIntervalMs \<le> timeout + checkIntervalMs"
  unfolding start_module_def
  by (auto simp: ticks_Cons ticks_Nil split: sum.splits prod.splits dest: wait_goAdd_ticks)

lemma try_initialize_ticks:
  "try_initialize w s = (r, s', tr) \<Longrightarrow> ticks tr * checkIntervalMs \<le> timeout + checkIntervalMs"
  unfolding try_initialize_def Let_def
  by (auto simp: ticks_Cons ticks_Nil ticks_append
      split: sum.splits prod.splits option.splits if_splits dest: start_module_ticks)

lemma initializeWasm_ticks:
  "initializeWasm w s = (r, s', tr) \<Longrightarrow> ticks tr * checkIntervalMs \<le> timeout + checkIntervalMs"
  unfolding initializeWasm_def
  by (auto simp: ticks_Nil split: sum.splits prod.splits if_splits dest: try_initialize_ticks)

lemma wait_goAdd_no_call:
  "wait_goAdd bg k e s = (r, s', tr) \<Longrightarrow> Call_goAdd args \<notin> set tr"
  by (induction rule: wait_goAdd_induct) simp_all

lemma start_module_no_call:
  "start_module w rt s = (r, s', tr) \<Longrightarrow> Call_goAdd args \<notin> set tr"
  unfolding start_module_def
  by (auto split: sum.splits prod.splits dest: wait_goAdd_no_call)

lemma try_initialize_no_call:
  "try_initialize w s = (r, s', tr) \<Longrightarrow> Call_goAdd args \<notin> set tr"
  unfolding try_initialize_def Let_def
  by (auto split: sum.splits prod.splits option.splits if_splits dest: start_module_no_call)

lemma initializeWasm_no_call:
  "initializeWasm w s = (r, s', tr) \<Longrightarrow> Call_goAdd args \<notin> set tr"
  unfolding initializeWasm_def
  by (auto split: sum.splits prod.splits if_splits dest: try_initialize_no_call)

lemma try_initialize_begins:
  "\<exists>tr'. snd (snd (try_initialize w s)) = ReadFile ''./public/wasm_exec.js'' # tr'"
  unfolding try_initialize_def Let_def
  by (auto split: sum.splits prod.splits option.splits if_splits)

lemma initializeWasm_begins:
  "wasmInstance s = None \<Longrightarrow>
     \<exists>tr'. snd (snd (initializeWasm w s)) = ReadFile ''./public/wasm_exec.js'' # tr'"
  using try_initialize_begins [of w s] unfolding initializeWasm_def
  by (auto split: sum.splits prod.splits)

lemma try_initialize_loaded:
  assumes "readFile w ''./public/wasm_exec.js'' = Inr c"
    and "runScript w c = (d, None)"
    and "g_Go s \<or> d"
    and "newGo w = Inr rt"
    and "readFile w ''./public/main.go.wasm'' = Inr b"
    and "instantiate w b rt = Inr inst"
  shows "try_initialize w s =
    (case wait_goAdd (run w rt inst) 1 0
            (s\<lparr>g_Go := g_Go s \<or> d, goRuntimeInstance := Some rt, wasmInstance := Some inst\<rparr>) of
       (r, s', tr) \<Rightarrow>
         (r, s', [ReadFile ''./public/wasm_exec.js'', RunScript, NewGo,
                  ReadFile ''./public/main.go.wasm'', Instantiate, RunModule] @ tr))"
  using assms unfolding try_initialize_def start_module_def Let_def
  by (auto split: prod.splits)

lemma initializeWasm_script_unreadable:
  assumes "wasmInstance s = None" and "readFile w ''./public/wasm_exec.js'' = Inl x"
  shows "initializeWasm w s =
    (Inl (ErrorObj (init_failed_prefix @ message_or_String x)), s\<lparr>wasmInstance := None\<rparr>,
     [ReadFile ''./public/wasm_exec.js''])"
  using assms by (simp add: initializeWasm_def try_initialize_def)

lemma initializeWasm_no_Go:
  assumes "wasmInstance s = None" and "readFile w ''./public/wasm_exec.js'' = Inr c"
    and "runScript w c = (False, None)" and "\<not> g_Go s"
  shows "initializeWasm w s =
    (Inl (ErrorObj (init_failed_prefix @ msg_no_Go)), s\<lparr>g_Go := False, wasmInstance := None\<rparr>,
     [ReadFile ''./public/wasm_exec.js'', RunScript])"
  using assms by (simp add: initializeWasm_def try_initialize_def)

lemma initializeWasm_binary_unreadable:
  assumes "wasmInstance s = None" and "readFile w ''./public/wasm_exec.js'' = Inr c"
    and "runScript w c = (d, None)" and "g_Go s \<or> d" and "newGo w = Inr rt"
    and "readFile w ''./public/main.go.wasm'' = Inl x"
  shows "fst (initializeWasm w s) = Inl (ErrorObj (init_failed_prefix @ message_or_String x)) \<and>
         wasmInstance (fst (snd (initializeWasm w s))) = None"
  using assms by (auto simp: initializeWasm_def try_initialize_def start_module_def)

lemma initializeWasm_instantiate_fails:
  assumes "wasmInstance s = None" and "readFile w ''./public/wasm_exec.js'' = Inr c"
    and "runScript w c = (d, None)" and "g_Go s \<or> d" and "newGo w = Inr rt"
    and "readFile w ''./public/main.go.wasm'' = Inr b" and "instantiate w b rt = Inl x"
  shows "fst (initializeWasm w s) = Inl (ErrorObj (init_failed_prefix @ message_or_String x)) \<and>
         wasmInstance (fst (snd (initializeWasm w s))) = None"
  using assms by (auto simp: initializeWasm_def try_initialize_def start_module_def)

lemma initializeWasm_rejected:
  assumes "wasmInstance s = None" and "readFile w ''./public/wasm_exec.js'' = Inr c"
    and "runScript w c = (d, None)" and "g_Go s \<or> d" and "newGo w = Inr rt"
    and "readFile w ''./public/main.go.wasm'' = Inr b" and "instantiate w b rt = Inr inst"
    and "initializeWasm w s = (r, s', tr)"
    and "Tick j \<in> set tr" and "Reject x \<in> set (run w rt inst j)"
  shows "wasmInstance s' = None"
proof -
  let ?s0 = "s\<lparr>g_Go := g_Go s \<or> d, goRuntimeInstance := Some rt, wasmInstance := Some inst\<rparr>"
  obtain r1 s1 tr1 where wait: "wait_goAdd (run w rt inst) 1 0 ?s0 = (r1, s1, tr1)"
    by (cases "wait_goAdd (run w rt inst) 1 0 ?s0") auto
  from assms(8) assms(1) wait have tr: "set tr = {ReadFile ''./public/wasm_exec.js'', RunScript, NewGo,
                  ReadFile ''./public/main.go.wasm'', Instantiate, RunModule} \<union> set tr1"
    and s': "wasmInstance s' = None \<or> s' = s1"
    by (auto simp: initializeWasm_def try_initialize_loaded [OF assms(2-7)] split: sum.splits)
  from tr assms(9) have "Tick j \<in> set tr1" by auto
  with wait have "wasmInstance s1 = None" using assms(10) by (rule wait_goAdd_Reject)
  with s' show ?thesis by auto
qed

lemma initializeWasm_timeout:
  assumes "wasmInstance s = None" and "readFile w ''./public/wasm_exec.js'' = Inr c"
    and "runScript w c = (d, None)" and "g_Go s \<or> d" and "newGo w = Inr rt"
    and "readFile w ''./public/main.go.wasm'' = Inr b" and "instantiate w b rt = Inr inst"
    and "g_goAdd s = None" and "\<forall>j f. Register f \<notin> set (run w rt inst j)"
    and "initializeWasm w s = (r, s', tr)"
  shows "r = Inl (ErrorObj (init_failed_prefix @ msg_timeout)) \<and> wasmInstance s' = None \<and>
         timeout \<le> ticks tr * checkIntervalMs \<and>
         ticks tr * checkIntervalMs \<le> timeout + checkIntervalMs"
proof -
  let ?s0 = "s\<lparr>g_Go := g_Go s \<or> d, goRuntimeInstance := Some rt, wasmInstance := Some inst\<rparr>"
  obtain r1 s1 tr1 where wait: "wait_goAdd (run w rt inst) 1 0 ?s0 = (r1, s1, tr1)"
    by (cases "wait_goAdd (run w rt inst) 1 0 ?s0") auto
  from wait assms(8,9) have r1: "r1 = Inl (ErrorObj msg_timeout)"
    by (auto dest: wait_goAdd_never_registered)
  from wait r1 have late: "timeout \<le> ticks tr1 * checkIntervalMs"
    by (auto dest: wait_goAdd_not_early)
  from assms(10) assms(1) wait r1
  have r: "r = Inl (ErrorObj (init_failed_prefix @ msg_timeout))"
    and s': "wasmInstance s' = None"
    and tr: "ticks tr = ticks tr1"
    by (auto simp: initializeWasm_def try_initialize_loaded [OF assms(2-7)] ticks_Cons ticks_append)
  from assms(10) have "ticks tr * checkIntervalMs \<le> timeout + checkIntervalMs"
    by (rule initializeWasm_ticks)
  with r s' tr late show ?thesis by simp
qed

section \<open>The handler\<close>

lemma POST_ready:
  "wasmInstance s = Some inst \<Longrightarrow> g_goAdd s = Some f \<Longrightarrow>
     POST w req s = (case calculate f req of (resp, tr) \<Rightarrow> (resp, s, tr))"
  by (simp add: POST_def ready_def)

lemma POST_unready:
  "\<not> ready s \<Longrightarrow>
     POST w req s =
       (case initializeWasm w s of
          (Inl err, s1, tr) \<Rightarrow> (handle_error err, s1, tr)
        | (Inr u, s1, tr) \<Rightarrow>
            (case (wasmInstance s1, g_goAdd s1) of
               (Some inst, Some goAdd) \<Rightarrow>
                 (case calculate goAdd req of (resp, tr') \<Rightarrow> (resp, s1, tr @ tr'))
             | _ \<Rightarrow>
                 (\<lparr>status = 503, body = [(''error'', JString msg_unavailable)]\<rparr>, s1, tr)))"
  by (simp add: POST_def)

lemma POST_call_ready:
  assumes "POST w req s = (resp, s', tr)" and "Call_goAdd args \<in> set tr"
  shows "ready s'"
proof (cases "ready s")
  case True
  then obtain inst f where "wasmInstance s = Some inst" "g_goAdd s = Some f"
    by (auto simp: ready_def)
  with assms(1) have "s' = s"
    by (auto simp: POST_ready split: prod.splits)
  with True show ?thesis by simp
next
  case False
  obtain r s1 tr1 where init: "initializeWasm w s = (r, s1, tr1)"
    by (cases "initializeWasm w s") auto
  then have nc: "Call_goAdd args \<notin> set tr1" by (rule initializeWasm_no_call)
  from assms init nc show ?thesis
    by (auto simp: POST_unready [OF False] ready_def
        split: sum.splits option.splits prod.splits)
qed

lemma calculate_not_numeric:
  assumes "json req = Inr parsed"
    and "\<not> typeof_number (get_property parsed ''a'') \<or> \<not> typeof_number (get_property parsed ''b'')"
  shows "snd (calculate f req) = []"
    and "parsed \<noteq> JNull \<Longrightarrow> parsed \<noteq> JUndefined \<Longrightarrow>
         calculate f req = (\<lparr>status = 400, body = [(''error'', JString msg_invalid_input)]\<rparr>, [])"
  using assms by (auto simp: calculate_def destructure_a_b_def)

lemma calculate_unparseable:
  "json req = Inl x \<Longrightarrow> calculate f req = (handle_error x, [])"
  by (simp add: calculate_def)

lemma status_handle_error: "status (handle_error x) = 500"
  by (simp add: handle_error_def Let_def)

lemma POST_state:
  "fst (snd (POST w req s)) = (if ready s then s else fst (snd (initializeWasm w s)))"
  by (auto simp: POST_def split: sum.splits option.splits prod.splits)

lemma POST_trace_not_numeric:
  assumes "json req = Inr parsed"
    and "\<not> typeof_number (get_property parsed ''a'') \<or> \<not> typeof_number (get_property parsed ''b'')"
  shows "snd (snd (POST w req s)) = (if ready s then [] else snd (snd (initializeWasm w s)))"
proof -
  have quiet: "tr = []" if "calculate f req = (resp, tr)" for f resp tr
    using calculate_not_numeric(1) [OF assms, of f] that by simp
  show ?thesis
  proof (cases "ready s")
    case True
    then obtain inst f where "wasmInstance s = Some inst" "g_goAdd s = Some f"
      by (auto simp: ready_def)
    with True show ?thesis
      by (auto simp: POST_ready split: prod.splits dest: quiet)
  next
    case False
    then show ?thesis
      by (auto simp: POST_unready split: sum.splits option.splits prod.splits dest: quiet)
  qed
qed

section \<open>The exported function\<close>

lemma trunc_of_int: "trunc (of_int n) = n"
  by (simp add: trunc_def)

lemma sint_goint_of_int:
  "int64_range n \<Longrightarrow> sint (word_of_int n :: goint) = n"
  by (simp add: int64_range_def sint_sbintrunc' signed_take_bit_int_eq_self)

lemma sint_add_of_int:
  "int64_range (x + y) \<Longrightarrow> sint (word_of_int x + word_of_int y :: goint) = x + y"
  using sint_goint_of_int [of "x + y"] by simp

lemma Value_Int_Fin:
  "int64_range (trunc r) \<Longrightarrow> Value_Int oor (JNumber (Fin r)) = Inr (word_of_int (trunc r))"
  by (simp add: Value_Int_def)

lemma add_two_numbers:
  assumes "int64_range (trunc p)" and "int64_range (trunc q)"
  shows "add oor [JNumber (Fin p), JNumber (Fin q)] =
         Inr (ValueOf_int (word_of_int (trunc p) + word_of_int (trunc q)))"
  using assms by (simp add: add_def anzen_ni_Int_ni_henkan_def Value_Int_Fin)

lemma small_is_host_integer: "\<bar>n\<bar> \<le> 2 ^ 53 \<Longrightarrow> host_integer n"
  unfolding host_integer_def int64_range_def float64_of_int_def by auto

lemma add_host_integers:
  assumes "host_integer x" and "host_integer y" and "host_integer (x + y)"
  shows "add oor [JNumber (Fin (of_int x)), JNumber (Fin (of_int y))] =
         Inr (JNumber (Fin (of_int (x + y))))"
  using assms
  by (simp add: add_two_numbers trunc_of_int host_integer_def ValueOf_int_def sint_add_of_int)

text \<open>
  Claim C8. Called with an argument list whose length is not two, the exported function
  returns the string \<^verbatim>\<open>"Invalid number of arguments"\<close>: it returns a value (\<open>Inr\<close>), it does
  not panic, and the JavaScript caller of \<^verbatim>\<open>goAdd\<close> gets that string, not a thrown value.
\<close>

theorem add_wrong_arity:
  "length args \<noteq> 2 \<Longrightarrow>
     add oor args = Inr (JString ''Invalid number of arguments'') \<and>
     FuncOf (add oor) args = Inr (JString ''Invalid number of arguments'')"
  by (simp add: add_def FuncOf_def)

theorem add_wrong_arity_witness:
  "length [JNumber (Fin 1)] \<noteq> 2 \<and>
   add (\<lambda>_. 0) [JNumber (Fin 1)] = Inr (JString ''Invalid number of arguments'') \<and>
   FuncOf (add (\<lambda>_. 0)) [JNumber (Fin 1)] = Inr (JString ''Invalid number of arguments'')"
  using add_wrong_arity [of "[JNumber (Fin 1)]" "\<lambda>_. 0"] by simp

lemma bit_length_0: "bit_length 0 = 0"
  by (simp add: bit_length.simps)

lemma bit_length_1: "bit_length (Suc 0) = Suc 0"
  using bit_length.simps [of "Suc 0"] by (simp add: bit_length_0)

lemma bit_length_numeral: "bit_length (numeral n) = Suc (bit_length (numeral n div 2))"
  by (subst bit_length.simps) simp

lemma float64_of_min_int: "float64_of_int (- 9223372036854775808) = - 9223372036854775808"
  by (simp add: float64_of_int_def Let_def bit_length_numeral bit_length_0 bit_length_1)

lemma trunc_example: "trunc (3 / 2) = 1" "trunc (5 / 2) = 2"
  by code_simp+

section \<open>The claims about initialization\<close>

text \<open>
  Claim C7. Called when the runtime instance is already there (\<^verbatim>\<open>wasmInstance\<close> is not
  \<^verbatim>\<open>null\<close>), \<^verbatim>\<open>initializeWasm\<close> returns at once: it reads no file, runs no script,
  instantiates nothing (the trace is empty) and leaves the state, the global namespace
  included, as it was; a second call in a row does the same.
\<close>

theorem initializeWasm_ready_is_noop:
  "wasmInstance s \<noteq> None \<Longrightarrow>
     initializeWasm w s = (Inr (), s, []) \<and>
     initializeWasm w (fst (snd (initializeWasm w s))) = (Inr (), s, [])"
  by (simp add: initializeWasm_skip)

theorem initializeWasm_ready_is_noop_witness:
  "wasmInstance (ready_state (FuncOf (add (\<lambda>n. 0)))) \<noteq> None \<and>
   initializeWasm no_files_world (ready_state (FuncOf (add (\<lambda>n. 0)))) =
     (Inr (), ready_state (FuncOf (add (\<lambda>n. 0))), []) \<and>
   initializeWasm no_files_world
     (fst (snd (initializeWasm no_files_world (ready_state (FuncOf (add (\<lambda>n. 0))))))) =
     (Inr (), ready_state (FuncOf (add (\<lambda>n. 0))), [])"
  using initializeWasm_ready_is_noop
    [of "ready_state (FuncOf (add (\<lambda>n. 0)))" no_files_world]
  by (simp add: ready_state_def)

section \<open>The claims about the handler\<close>

text \<open>
  Claim C10. With the module ready, a request whose body cannot be parsed
  (\<^verbatim>\<open>request.json()\<close> throws) is answered with status 500 and never 400, without a call of
  \<^verbatim>\<open>goAdd\<close>; the response is the generic internal error with the thrown message as
  details, unless that message begins with the marker of a failed initialization.
\<close>

theorem POST_unparseable_body:
  "ready s \<Longrightarrow> json req = Inl x \<Longrightarrow>
     POST w req s = (handle_error x, s, []) \<and>
     status (handle_error x) = 500 \<and>
     (\<not> starts_with (case x of ErrorObj m \<Rightarrow> m | NonError v \<Rightarrow> msg_unknown_error)
           init_failed_marker \<longrightarrow>
      handle_error x =
        \<lparr>status = 500,
         body = [(''error'', JString msg_internal_error),
                 (''details'',
                  JString (case x of ErrorObj m \<Rightarrow> m | NonError v \<Rightarrow> msg_unknown_error))]\<rparr>)"
  by (auto simp: ready_def POST_ready calculate_unparseable handle_error_def Let_def)

theorem POST_unparseable_body_witness:
  "ready (ready_state (FuncOf (add (\<lambda>n. 0)))) \<and>
   json \<lparr>json = Inl (ErrorObj ''Unexpected end of JSON input'')\<rparr> =
     Inl (ErrorObj ''Unexpected end of JSON input'') \<and>
   \<not> starts_with ''Unexpected end of JSON input'' init_failed_marker \<and>
   POST no_files_world \<lparr>json = Inl (ErrorObj ''Unexpected end of JSON input'')\<rparr>
     (ready_state (FuncOf (add (\<lambda>n. 0)))) =
     (\<lparr>status = 500,
       body = [(''error'', JString msg_internal_error),
               (''details'', JString ''Unexpected end of JSON input'')]\<rparr>,
      ready_state (FuncOf (add (\<lambda>n. 0))), [])"
  using POST_unparseable_body
    [of "ready_state (FuncOf (add (\<lambda>n. 0)))"
        "\<lparr>json = Inl (ErrorObj ''Unexpected end of JSON input'')\<rparr>"
        "ErrorObj ''Unexpected end of JSON input''" no_files_world]
  by (simp add: ready_state_def ready_def starts_with_def init_failed_marker_def bytes_def)

text \<open>
  Claim C1. For integers \<open>x\<close> and \<open>y\<close> that the Go \<^verbatim>\<open>int\<close> and the JavaScript number both
  hold exactly, and whose sum is such an integer too (no overflow), the exported function
  called with exactly these two arguments returns \<open>x + y\<close>; and the handler, when the
  module is ready with that function behind \<^verbatim>\<open>goAdd\<close> and the body has the numeric fields
  \<^verbatim>\<open>a\<close> = \<open>x\<close> and \<^verbatim>\<open>b\<close> = \<open>y\<close>, answers 200 with \<^verbatim>\<open>{"result": x + y}\<close> after one call of
  \<^verbatim>\<open>goAdd\<close> (15 and 7 give 22; -5 and 5 give 0).
\<close>

theorem goAdd_returns_sum:
  assumes "host_integer x" and "host_integer y" and "host_integer (x + y)"
  shows "add oor [JNumber (Fin (of_int x)), JNumber (Fin (of_int y))] =
           Inr (JNumber (Fin (of_int (x + y)))) \<and>
         (ready s \<and> g_goAdd s = Some (FuncOf (add oor)) \<and>
          json req = Inr (JObject props) \<and>
          map_of props ''a'' = Some (JNumber (Fin (of_int x))) \<and>
          map_of props ''b'' = Some (JNumber (Fin (of_int y))) \<longrightarrow>
          POST w req s =
            (\<lparr>status = 200, body = [(''result'', JNumber (Fin (of_int (x + y))))]\<rparr>, s,
             [Call_goAdd [JNumber (Fin (of_int x)), JNumber (Fin (of_int y))]]))"
proof -
  have sum: "add oor [JNumber (Fin (of_int x)), JNumber (Fin (of_int y))] =
      Inr (JNumber (Fin (of_int (x + y))))"
    using assms by (rule add_host_integers)
  have "POST w req s =
      (\<lparr>status = 200, body = [(''result'', JNumber (Fin (of_int (x + y))))]\<rparr>, s,
       [Call_goAdd [JNumber (Fin (of_int x)), JNumber (Fin (of_int y))]])"
    if "ready s" and f: "g_goAdd s = Some (FuncOf (add oor))"
      and "json req = Inr (JObject props)"
      and "map_of props ''a'' = Some (JNumber (Fin (of_int x)))"
      and "map_of props ''b'' = Some (JNumber (Fin (of_int y)))"
  proof -
    from \<open>ready s\<close> obtain inst where "wasmInstance s = Some inst"
      by (auto simp: ready_def)
    then have "POST w req s =
        (case calculate (FuncOf (add oor)) req of (resp, tr) \<Rightarrow> (resp, s, tr))"
      using f by (rule POST_ready)
    moreover have "calculate (FuncOf (add oor)) req =
        (\<lparr>status = 200, body = [(''result'', JNumber (Fin (of_int (x + y))))]\<rparr>,
         [Call_goAdd [JNumber (Fin (of_int x)), JNumber (Fin (of_int y))]])"
      using that(3-5) sum
      by (simp add: calculate_def destructure_a_b_def get_property_def FuncOf_def)
    ultimately show ?thesis by simp
  qed
  with sum show ?thesis by blast
qed

theorem goAdd_returns_sum_witness:
  "host_integer 15 \<and> host_integer 7 \<and> host_integer (15 + 7) \<and>
   host_integer (- 5) \<and> host_integer 5 \<and> host_integer (- 5 + 5) \<and>
   add (\<lambda>n. 0) [JNumber (Fin 15), JNumber (Fin 7)] = Inr (JNumber (Fin 22)) \<and>
   add (\<lambda>n. 0) [JNumber (Fin (- 5)), JNumber (Fin 5)] = Inr (JNumber (Fin 0)) \<and>
   ready (ready_state (FuncOf (add (\<lambda>n. 0)))) \<and>
   POST no_files_world \<lparr>json = Inr (JObject [(''a'', JNumber (Fin 15)), (''b'', JNumber (Fin 7))])\<rparr>
     (ready_state (FuncOf (add (\<lambda>n. 0)))) =
     (\<lparr>status = 200, body = [(''result'', JNumber (Fin 22))]\<rparr>,
      ready_state (FuncOf (add (\<lambda>n. 0))),
      [Call_goAdd [JNumber (Fin 15), JNumber (Fin 7)]])"
  using goAdd_returns_sum
      [of 15 7 "\<lambda>n. 0" "ready_state (FuncOf (add (\<lambda>n. 0)))"
          "\<lparr>json = Inr (JObject [(''a'', JNumber (Fin 15)), (''b'', JNumber (Fin 7))])\<rparr>"
          "[(''a'', JNumber (Fin 15)), (''b'', JNumber (Fin 7))]" no_files_world]
    goAdd_returns_sum [of "- 5" 5 "\<lambda>n. 0"]
  by (simp add: small_is_host_integer ready_state_def ready_def)


lemma starts_with_init_failed:
  "starts_with (init_failed_prefix @ m) init_failed_marker"
  by (simp add: starts_with_def init_failed_prefix_def init_failed_marker_def bytes_def)

lemma handle_error_init_failed:
  "handle_error (ErrorObj (init_failed_prefix @ m)) =
     \<lparr>status = 500,
      body = [(''error'', JString msg_init_failed),
              (''details'', JString (init_failed_prefix @ m))]\<rparr>"
  by (simp add: handle_error_def starts_with_init_failed)

lemma initializeWasm_thrown_message:
  "initializeWasm w s = (Inl e, s', tr) \<Longrightarrow> \<exists>m. e = ErrorObj (init_failed_prefix @ m)"
  unfolding initializeWasm_def
  by (auto split: sum.splits prod.splits if_splits)




lemma wait_goAdd_first_tick:
  "g_goAdd (fold apply_bg (bg k) s) \<noteq> None \<Longrightarrow>
     wait_goAdd bg k e s = (Inr (), fold apply_bg (bg k) s, [Tick k])"
  by (subst wait_goAdd.simps) (simp add: Let_def)

text \<open>
  Claim C6 as stated fails: when the initialization attempt itself fails (here no file
  can be read), the module is not ready afterwards (\<^verbatim>\<open>wasmInstance\<close> is \<^verbatim>\<open>null\<close>), and the
  handler answers 500 from its \<^verbatim>\<open>catch\<close> block, not 503.
\<close>

theorem POST_failed_initialization_counterexample:
  "\<not> ready (fst (snd (POST no_files_world
      \<lparr>json = Inr (JObject [(''a'', JNumber (Fin 15)), (''b'', JNumber (Fin 7))])\<rparr>
      cold_state))) \<and>
   wasmInstance (fst (snd (POST no_files_world
      \<lparr>json = Inr (JObject [(''a'', JNumber (Fin 15)), (''b'', JNumber (Fin 7))])\<rparr>
      cold_state))) = None \<and>
   status (fst (POST no_files_world
      \<lparr>json = Inr (JObject [(''a'', JNumber (Fin 15)), (''b'', JNumber (Fin 7))])\<rparr>
      cold_state)) = 500 \<and>
   status (fst (POST no_files_world
      \<lparr>json = Inr (JObject [(''a'', JNumber (Fin 15)), (''b'', JNumber (Fin 7))])\<rparr>
      cold_state)) \<noteq> 503"
proof -
  have "\<not> ready cold_state"
    by (simp add: ready_def cold_state_def)
  then show ?thesis
    by (simp add: POST_unready initializeWasm_script_unreadable [where x = "ErrorObj ''ENOENT''"]
        cold_state_def no_files_world_def healthy_world_def status_handle_error ready_def)
qed

text \<open>
  Claim C6, amended. When the module is not ready at the first test and still not ready
  after the initialization attempt (\<^verbatim>\<open>wasmInstance\<close> is \<^verbatim>\<open>null\<close> or \<^verbatim>\<open>goAdd\<close> is no function):
  if the attempt returned without an exception, the handler answers 503 with an error
  string, whatever the request; if the attempt threw, the handler answers 500 with the
  message of a failed initialization and the thrown message as details. In the first
  part of the witness the Go program registers \<^verbatim>\<open>goAdd\<close> and then ends with a rejection
  before the first timer callback.
\<close>

theorem POST_unavailable:
  assumes "\<not> ready s" and "initializeWasm w s = (r, s', tr)" and "\<not> ready s'"
  shows "(r = Inr () \<longrightarrow>
            POST w req s =
              (\<lparr>status = 503, body = [(''error'', JString msg_unavailable)]\<rparr>, s', tr)) \<and>
         (r = Inl e \<longrightarrow>
            (\<exists>m. e = ErrorObj (init_failed_prefix @ m)) \<and>
            POST w req s =
              (\<lparr>status = 500,
                body = [(''error'', JString msg_init_failed),
                        (''details'', JString (message_or_String e))]\<rparr>, s', tr))"
proof -
  have returned: "POST w req s =
      (\<lparr>status = 503, body = [(''error'', JString msg_unavailable)]\<rparr>, s', tr)"
    if "r = Inr ()"
    using assms that by (auto simp: POST_unready ready_def split: option.splits)
  have thrown: "(\<exists>m. e = ErrorObj (init_failed_prefix @ m)) \<and>
      POST w req s =
        (\<lparr>status = 500,
          body = [(''error'', JString msg_init_failed),
                  (''details'', JString (message_or_String e))]\<rparr>, s', tr)"
    if "r = Inl e"
  proof -
    from assms(2) that obtain m where e: "e = ErrorObj (init_failed_prefix @ m)"
      by (auto dest: initializeWasm_thrown_message)
    with assms(1,2) that show ?thesis
      by (simp add: POST_unready handle_error_init_failed)
  qed
  from returned thrown show ?thesis by blast
qed

theorem POST_unavailable_witness:
  "(let f = FuncOf (add (\<lambda>n. 0));
        w = healthy_world (\<lambda>k. if k = 1 then [Register f, Reject (ErrorObj ''exit code 2'')] else []);
        s' = \<lparr>goRuntimeInstance = Some 1, wasmInstance = None, g_Go = True, g_goAdd = Some f\<rparr>;
        tr = [ReadFile ''./public/wasm_exec.js'', RunScript, NewGo,
              ReadFile ''./public/main.go.wasm'', Instantiate, RunModule, Tick 1]
    in \<not> ready cold_state \<and> initializeWasm w cold_state = (Inr (), s', tr) \<and> \<not> ready s' \<and>
       POST w \<lparr>json = Inr (JObject [(''a'', JNumber (Fin 15)), (''b'', JNumber (Fin 7))])\<rparr>
         cold_state =
         (\<lparr>status = 503, body = [(''error'', JString msg_unavailable)]\<rparr>, s', tr)) \<and>
   (initializeWasm no_files_world cold_state =
      (Inl (ErrorObj (init_failed_prefix @ ''ENOENT'')), cold_state,
       [ReadFile ''./public/wasm_exec.js'']) \<and>
    POST no_files_world
      \<lparr>json = Inr (JObject [(''a'', JNumber (Fin 15)), (''b'', JNumber (Fin 7))])\<rparr>
      cold_state =
      (\<lparr>status = 500,
        body = [(''error'', JString msg_init_failed),
                (''details'', JString (init_failed_prefix @ ''ENOENT''))]\<rparr>, cold_state,
       [ReadFile ''./public/wasm_exec.js'']))"
proof -
  let ?f = "FuncOf (add (\<lambda>n. 0))"
  let ?w = "healthy_world (\<lambda>k. if k = 1 then [Register ?f, Reject (ErrorObj ''exit code 2'')] else [])"
  let ?s' = "\<lparr>goRuntimeInstance = Some 1, wasmInstance = None, g_Go = True,
        g_goAdd = Some ?f\<rparr>"
  let ?req = "\<lparr>json = Inr (JObject [(''a'', JNumber (Fin 15)), (''b'', JNumber (Fin 7))])\<rparr>"
  have cold: "\<not> ready cold_state"
    by (simp add: ready_def cold_state_def)
  have init: "initializeWasm ?w cold_state =
     (Inr (), ?s',
      [ReadFile ''./public/wasm_exec.js'', RunScript, NewGo,
       ReadFile ''./public/main.go.wasm'', Instantiate, RunModule, Tick 1])"
    by (simp add: initializeWasm_def try_initialize_def start_module_def healthy_world_def
        cold_state_def wait_goAdd_first_tick)
  have after: "\<not> ready ?s'"
    by (simp add: ready_def)
  have fail: "initializeWasm no_files_world cold_state =
      (Inl (ErrorObj (init_failed_prefix @ ''ENOENT'')), cold_state,
       [ReadFile ''./public/wasm_exec.js''])"
    by (simp add: initializeWasm_def try_initialize_def no_files_world_def healthy_world_def
        cold_state_def)
  from cold init after fail
    POST_unavailable [OF cold init after, where req = ?req]
    POST_unavailable [OF cold fail cold, where req = ?req
      and e = "ErrorObj (init_failed_prefix @ ''ENOENT'')"]
  show ?thesis
    by (simp add: Let_def)
qed

section \<open>Truncation and wrap-around in the module\<close>

text \<open>
  Claim C9 as stated fails: for the numeric arguments \<open>2 ^ 62\<close> and \<open>2 ^ 62\<close> the sum of
  the truncated arguments is \<open>2 ^ 63\<close>, Go's 64-bit addition wraps around, and the
  function returns \<open>- (2 ^ 63)\<close>.
\<close>

theorem add_wraps_counterexample:
  "add (\<lambda>n. 0) [JNumber (Fin 4611686018427387904), JNumber (Fin 4611686018427387904)] =
     Inr (JNumber (Fin (- 9223372036854775808))) \<and>
   add (\<lambda>n. 0) [JNumber (Fin 4611686018427387904), JNumber (Fin 4611686018427387904)] \<noteq>
     Inr (JNumber (Fin (of_int (trunc 4611686018427387904 + trunc 4611686018427387904))))"
proof -
  have t: "trunc 4611686018427387904 = 4611686018427387904"
    by (simp add: trunc_def)
  have r: "int64_range 4611686018427387904"
    by (simp add: int64_range_def)
  have s: "sint (2 * word_of_int 4611686018427387904 :: goint) = - 9223372036854775808"
    by simp
  have "add (\<lambda>n. 0) [JNumber (Fin 4611686018427387904), JNumber (Fin 4611686018427387904)] =
     Inr (JNumber (Fin (- 9223372036854775808)))"
    using add_two_numbers [of 4611686018427387904 4611686018427387904 "\<lambda>n. 0"]
    by (simp add: t r s ValueOf_int_def float64_of_min_int)
  then show ?thesis by (simp add: t)
qed

text \<open>
  Claim C9, amended. For numeric arguments whose truncations fit the Go \<^verbatim>\<open>int\<close> and whose
  truncated sum fits it and is exactly a JavaScript number, the function returns
  \<open>trunc p + trunc q\<close>: each argument is cut towards zero before the sum. For 1.5 and 2.5
  it returns 3, which is not 1.5 + 2.5.
\<close>

theorem add_truncates:
  "(int64_range (trunc p) \<and> int64_range (trunc q) \<and> host_integer (trunc p + trunc q) \<longrightarrow>
      add oor [JNumber (Fin p), JNumber (Fin q)] =
        Inr (JNumber (Fin (of_int (trunc p + trunc q))))) \<and>
   add oor [JNumber (Fin (3 / 2)), JNumber (Fin (5 / 2))] = Inr (JNumber (Fin 3)) \<and>
   (3 :: rat) \<noteq> 3 / 2 + 5 / 2"
proof -
  have general: "add oor [JNumber (Fin p), JNumber (Fin q)] =
        Inr (JNumber (Fin (of_int (trunc p + trunc q))))"
    if "int64_range (trunc p)" "int64_range (trunc q)" "host_integer (trunc p + trunc q)"
    for p q
    using that
    by (simp add: add_two_numbers ValueOf_int_def sint_add_of_int host_integer_def)
  have "add oor [JNumber (Fin (3 / 2)), JNumber (Fin (5 / 2))] = Inr (JNumber (Fin 3))"
    using general [of "3 / 2" "5 / 2"]
    by (simp add: trunc_example int64_range_def small_is_host_integer)
  with general show ?thesis by simp
qed

theorem add_truncates_witness:
  "int64_range (trunc (7 / 4)) \<and> int64_range (trunc (- 9 / 4)) \<and>
   host_integer (trunc (7 / 4) + trunc (- 9 / 4)) \<and>
   add (\<lambda>n. 0) [JNumber (Fin (7 / 4)), JNumber (Fin (- 9 / 4))] = Inr (JNumber (Fin (- 1)))"
proof -
  have t: "trunc (7 / 4) = 1" "trunc (- (9 / 4)) = - 2"
    by code_simp+
  show ?thesis
    using add_truncates [of "7 / 4" "- 9 / 4" "\<lambda>n. 0"]
    by (simp add: t int64_range_def small_is_host_integer)
qed

section \<open>The bound on the readiness wait\<close>

text \<open>
  Claim C4. Time is the timer's own: the \<open>k\<close>-th callback of \<^verbatim>\<open>setInterval\<close> runs
  \<open>k * checkIntervalMs\<close> milliseconds after the wait began, so \<open>ticks tr * checkIntervalMs\<close>
  is the time a call has waited. No call of \<^verbatim>\<open>initializeWasm\<close> waits longer than the
  timeout (5000 ms) plus one interval (50 ms). When every step up to \<^verbatim>\<open>go.run\<close> succeeds
  and \<^verbatim>\<open>goAdd\<close> never appears (it is absent at the start and the Go program never
  registers it), the sequence fails: the wait rejects with the timeout error, which
  \<^verbatim>\<open>initializeWasm\<close> rethrows with its prefix, \<^verbatim>\<open>wasmInstance\<close> is \<^verbatim>\<open>null\<close> afterwards, and
  this happens no earlier than the timeout and no later than one interval after it.
\<close>

theorem readiness_wait_is_bounded:
  "timeout = 5000 \<and> checkIntervalMs = 50 \<and>
   ticks (snd (snd (initializeWasm w s))) * checkIntervalMs \<le> timeout + checkIntervalMs \<and>
   (wasmInstance s = None \<and> g_goAdd s = None \<and>
    readFile w ''./public/wasm_exec.js'' = Inr c \<and> runScript w c = (d, None) \<and>
    (g_Go s \<or> d) \<and> newGo w = Inr rt \<and>
    readFile w ''./public/main.go.wasm'' = Inr b \<and> instantiate w b rt = Inr inst \<and>
    (\<forall>j f. Register f \<notin> set (run w rt inst j)) \<longrightarrow>
    fst (initializeWasm w s) = Inl (ErrorObj (init_failed_prefix @ msg_timeout)) \<and>
    wasmInstance (fst (snd (initializeWasm w s))) = None \<and>
    timeout \<le> ticks (snd (snd (initializeWasm w s))) * checkIntervalMs)"
proof -
  obtain r s' tr where init: "initializeWasm w s = (r, s', tr)"
    by (cases "initializeWasm w s") auto
  have bound: "ticks tr * checkIntervalMs \<le> timeout + checkIntervalMs"
    using init by (rule initializeWasm_ticks)
  have "r = Inl (ErrorObj (init_failed_prefix @ msg_timeout)) \<and> wasmInstance s' = None \<and>
      timeout \<le> ticks tr * checkIntervalMs"
    if "wasmInstance s = None" "g_goAdd s = None"
      "readFile w ''./public/wasm_exec.js'' = Inr c" "runScript w c = (d, None)"
      "g_Go s \<or> d" "newGo w = Inr rt"
      "readFile w ''./public/main.go.wasm'' = Inr b" "instantiate w b rt = Inr inst"
      "\<forall>j f. Register f \<notin> set (run w rt inst j)"
    using initializeWasm_timeout [OF that(1,3,4,5,6,7,8,2,9) init] by simp
  with init bound show ?thesis
    by (simp add: timeout_def checkIntervalMs_def)
qed

theorem readiness_wait_is_bounded_witness:
  "wasmInstance cold_state = None \<and> g_goAdd cold_state = None \<and>
   readFile (healthy_world (\<lambda>k. [])) ''./public/wasm_exec.js'' = Inr ''contents'' \<and>
   runScript (healthy_world (\<lambda>k. [])) ''contents'' = (True, None) \<and>
   newGo (healthy_world (\<lambda>k. [])) = Inr 1 \<and>
   readFile (healthy_world (\<lambda>k. [])) ''./public/main.go.wasm'' = Inr ''contents'' \<and>
   instantiate (healthy_world (\<lambda>k. [])) ''contents'' 1 = Inr 1 \<and>
   (\<forall>j f. Register f \<notin> set (run (healthy_world (\<lambda>k. [])) 1 1 j)) \<and>
   fst (initializeWasm (healthy_world (\<lambda>k. [])) cold_state) =
     Inl (ErrorObj (init_failed_prefix @ msg_timeout)) \<and>
   wasmInstance (fst (snd (initializeWasm (healthy_world (\<lambda>k. [])) cold_state))) = None \<and>
   5000 \<le> ticks (snd (snd (initializeWasm (healthy_world (\<lambda>k. [])) cold_state))) * 50 \<and>
   ticks (snd (snd (initializeWasm (healthy_world (\<lambda>k. [])) cold_state))) * 50 \<le> 5050"
  using readiness_wait_is_bounded
    [of "healthy_world (\<lambda>k. [])" cold_state "''contents''" True 1 "''contents''" 1]
  by (simp add: healthy_world_def cold_state_def)

section \<open>Validation before the call\<close>

text \<open>
  Claim C5 as stated fails: in a process that has not initialized the module and
  cannot read its files, the payload \<^verbatim>\<open>{"a":"hello","b":7}\<close> is answered with 500, since the
  handler makes the module ready before it looks at the body.
\<close>

theorem POST_missing_binary_counterexample:
  "status (fst (POST no_files_world
      \<lparr>json = Inr (JObject [(''a'', JString ''hello''), (''b'', JNumber (Fin 7))])\<rparr>
      cold_state)) = 500 \<and>
   status (fst (POST no_files_world
      \<lparr>json = Inr (JObject [(''a'', JString ''hello''), (''b'', JNumber (Fin 7))])\<rparr>
      cold_state)) \<noteq> 400"
proof -
  have "\<not> ready cold_state"
    by (simp add: ready_def cold_state_def)
  then show ?thesis
    by (simp add: POST_unready initializeWasm_script_unreadable [where x = "ErrorObj ''ENOENT''"]
        cold_state_def no_files_world_def healthy_world_def status_handle_error)
qed

text \<open>
  Claim C5, amended. For every request whose parsed body has a field \<^verbatim>\<open>a\<close> or \<^verbatim>\<open>b\<close> that is
  missing or not of type number, the handler never calls \<^verbatim>\<open>goAdd\<close>, in whatever state the
  process is; and when the module is ready once the handler has made sure of it, and the
  body is not \<^verbatim>\<open>null\<close>, the answer is 400 with the handler's own error message.
\<close>

theorem POST_rejects_non_numbers:
  assumes "json req = Inr parsed"
    and "\<not> typeof_number (get_property parsed ''a'') \<or> \<not> typeof_number (get_property parsed ''b'')"
  shows "(\<forall>args. Call_goAdd args \<notin> set (snd (snd (POST w req s)))) \<and>
         (ready (fst (snd (POST w req s))) \<and> parsed \<noteq> JNull \<and> parsed \<noteq> JUndefined \<longrightarrow>
          fst (POST w req s) =
            \<lparr>status = 400, body = [(''error'', JString msg_invalid_input)]\<rparr>)"
proof -
  have quiet: "\<forall>args. Call_goAdd args \<notin> set (snd (snd (POST w req s)))"
  proof (cases "ready s")
    case True
    then show ?thesis by (simp add: POST_trace_not_numeric [OF assms])
  next
    case False
    have "Call_goAdd args \<notin> set (snd (snd (initializeWasm w s)))" for args
      using initializeWasm_no_call [of w s] by (cases "initializeWasm w s") auto
    with False show ?thesis by (simp add: POST_trace_not_numeric [OF assms])
  qed
  have answer: "fst (POST w req s) =
      \<lparr>status = 400, body = [(''error'', JString msg_invalid_input)]\<rparr>"
    if rdy: "ready (fst (snd (POST w req s)))" and nn: "parsed \<noteq> JNull" "parsed \<noteq> JUndefined"
  proof -
    have calc: "calculate f req =
        (\<lparr>status = 400, body = [(''error'', JString msg_invalid_input)]\<rparr>, [])" for f
      using calculate_not_numeric(2) [OF assms nn] .
    show ?thesis
    proof (cases "ready s")
      case True
      then obtain inst f where "wasmInstance s = Some inst" "g_goAdd s = Some f"
        by (auto simp: ready_def)
      then show ?thesis by (simp add: POST_ready calc)
    next
      case False
      obtain r s1 tr1 where init: "initializeWasm w s = (r, s1, tr1)"
        by (cases "initializeWasm w s") auto
      from rdy False init have "ready s1"
        by (simp add: POST_state)
      moreover from this init have "r = Inr ()"
        by (cases r) (auto simp: ready_def dest: initializeWasm_thrown)
      ultimately show ?thesis using False init
        by (auto simp: POST_unready ready_def calc)
    qed
  qed
  from quiet answer show ?thesis by blast
qed

theorem POST_rejects_non_numbers_witness:
  "json \<lparr>json = Inr (JObject [(''a'', JString ''hello''), (''b'', JNumber (Fin 7))])\<rparr> =
     Inr (JObject [(''a'', JString ''hello''), (''b'', JNumber (Fin 7))]) \<and>
   \<not> typeof_number
       (get_property (JObject [(''a'', JString ''hello''), (''b'', JNumber (Fin 7))]) ''a'') \<and>
   ready (fst (snd (POST no_files_world
      \<lparr>json = Inr (JObject [(''a'', JString ''hello''), (''b'', JNumber (Fin 7))])\<rparr>
      (ready_state (FuncOf (add (\<lambda>n. 0))))))) \<and>
   (\<forall>args. Call_goAdd args \<notin> set (snd (snd (POST no_files_world
      \<lparr>json = Inr (JObject [(''a'', JString ''hello''), (''b'', JNumber (Fin 7))])\<rparr>
      (ready_state (FuncOf (add (\<lambda>n. 0)))))))) \<and>
   fst (POST no_files_world
      \<lparr>json = Inr (JObject [(''a'', JString ''hello''), (''b'', JNumber (Fin 7))])\<rparr>
      (ready_state (FuncOf (add (\<lambda>n. 0))))) =
     \<lparr>status = 400, body = [(''error'', JString msg_invalid_input)]\<rparr>"
proof -
  have r: "ready (ready_state (FuncOf (add (\<lambda>n. 0))))"
    by (simp add: ready_def ready_state_def)
  show ?thesis
    using POST_rejects_non_numbers
      [of "\<lparr>json = Inr (JObject [(''a'', JString ''hello''), (''b'', JNumber (Fin 7))])\<rparr>"
          "JObject [(''a'', JString ''hello''), (''b'', JNumber (Fin 7))]"
          no_files_world "ready_state (FuncOf (add (\<lambda>n. 0)))"]
    by (simp add: get_property_def POST_state r)
qed

section \<open>Runtime instance and exported function become valid together\<close>

text \<open>
  Claim C3. Every failure path of \<^verbatim>\<open>initializeWasm\<close> leaves \<^verbatim>\<open>wasmInstance\<close> at \<^verbatim>\<open>null\<close>:
  whenever the call throws; in particular when the bootstrap script or the binary cannot
  be read, when the script leaves no \<^verbatim>\<open>Go\<close> constructor, when the instantiation fails and
  when the wait times out (each of these does throw, with the prefix of a failed
  initialization); and when the promise of \<^verbatim>\<open>go.run\<close> rejects during the wait, whether
  the call then throws or not. A call that started without a runtime instance and ends
  with one has returned normally and ends ready: instance and exported function are
  there together. The handler calls \<^verbatim>\<open>goAdd\<close> only in a ready state (the state it ends in
  is the one it tested). And a call of \<^verbatim>\<open>initializeWasm\<close> without a runtime instance, such
  as the one of the next request after a failure, begins again with reading the
  bootstrap script.
\<close>

theorem initialization_never_half_ready:
  "(initializeWasm w s = (r, s', tr) \<longrightarrow>
      (r \<noteq> Inr () \<longrightarrow> wasmInstance s' = None) \<and>
      (wasmInstance s = None \<and> wasmInstance s' \<noteq> None \<longrightarrow> r = Inr () \<and> ready s')) \<and>
   (wasmInstance s = None \<and> readFile w ''./public/wasm_exec.js'' = Inl x \<longrightarrow>
      fst (initializeWasm w s) = Inl (ErrorObj (init_failed_prefix @ message_or_String x)) \<and>
      wasmInstance (fst (snd (initializeWasm w s))) = None) \<and>
   (wasmInstance s = None \<and> readFile w ''./public/wasm_exec.js'' = Inr c \<and>
    runScript w c = (False, None) \<and> \<not> g_Go s \<longrightarrow>
      fst (initializeWasm w s) = Inl (ErrorObj (init_failed_prefix @ msg_no_Go)) \<and>
      wasmInstance (fst (snd (initializeWasm w s))) = None) \<and>
   (wasmInstance s = None \<and> readFile w ''./public/wasm_exec.js'' = Inr c \<and>
    runScript w c = (d, None) \<and> (g_Go s \<or> d) \<and> newGo w = Inr rt \<and>
    readFile w ''./public/main.go.wasm'' = Inl x \<longrightarrow>
      fst (initializeWasm w s) = Inl (ErrorObj (init_failed_prefix @ message_or_String x)) \<and>
      wasmInstance (fst (snd (initializeWasm w s))) = None) \<and>
   (wasmInstance s = None \<and> readFile w ''./public/wasm_exec.js'' = Inr c \<and>
    runScript w c = (d, None) \<and> (g_Go s \<or> d) \<and> newGo w = Inr rt \<and>
    readFile w ''./public/main.go.wasm'' = Inr b \<and> instantiate w b rt = Inl x \<longrightarrow>
      fst (initializeWasm w s) = Inl (ErrorObj (init_failed_prefix @ message_or_String x)) \<and>
      wasmInstance (fst (snd (initializeWasm w s))) = None) \<and>
   (wasmInstance s = None \<and> readFile w ''./public/wasm_exec.js'' = Inr c \<and>
    runScript w c = (d, None) \<and> (g_Go s \<or> d) \<and> newGo w = Inr rt \<and>
    readFile w ''./public/main.go.wasm'' = Inr b \<and> instantiate w b rt = Inr inst \<and>
    Tick j \<in> set (snd (snd (initializeWasm w s))) \<and> Reject x \<in> set (run w rt inst j) \<longrightarrow>
      wasmInstance (fst (snd (initializeWasm w s))) = None) \<and>
   (wasmInstance s = None \<and> readFile w ''./public/wasm_exec.js'' = Inr c \<and>
    runScript w c = (d, None) \<and> (g_Go s \<or> d) \<and> newGo w = Inr rt \<and>
    readFile w ''./public/main.go.wasm'' = Inr b \<and> instantiate w b rt = Inr inst \<and>
    g_goAdd s = None \<and> (\<forall>j f. Register f \<notin> set (run w rt inst j)) \<longrightarrow>
      fst (initializeWasm w s) = Inl (ErrorObj (init_failed_prefix @ msg_timeout)) \<and>
      wasmInstance (fst (snd (initializeWasm w s))) = None) \<and>
   (POST w req s = (resp, s2, tr2) \<and> Call_goAdd args \<in> set tr2 \<longrightarrow> ready s2) \<and>
   (wasmInstance s = None \<longrightarrow>
      (\<exists>tr'. snd (snd (initializeWasm w s)) = ReadFile ''./public/wasm_exec.js'' # tr'))"
  (is "?together \<and> ?script \<and> ?ctor \<and> ?binary \<and> ?inst \<and> ?reject \<and> ?expire \<and> ?call \<and> ?retry")
proof -
  obtain r0 s0 tr0 where init: "initializeWasm w s = (r0, s0, tr0)"
    by (cases "initializeWasm w s") auto
  have together: ?together
  proof (intro impI conjI)
    assume run: "initializeWasm w s = (r, s', tr)" and "r \<noteq> Inr ()"
    then obtain e where "r = Inl e" by (cases r) auto
    with run show "wasmInstance s' = None" by (auto dest: initializeWasm_thrown)
  next
    assume run: "initializeWasm w s = (r, s', tr)"
      and "wasmInstance s = None \<and> wasmInstance s' \<noteq> None"
    then show "r = Inr ()" by (auto dest: initializeWasm_together)
  next
    assume run: "initializeWasm w s = (r, s', tr)"
      and "wasmInstance s = None \<and> wasmInstance s' \<noteq> None"
    then show "ready s'" by (auto simp: ready_def dest: initializeWasm_together)
  qed
  have script: ?script
    by (simp add: initializeWasm_script_unreadable)
  have ctor: ?ctor
    by (simp add: initializeWasm_no_Go)
  have binary: ?binary
    using initializeWasm_binary_unreadable [of s w c d rt x] by blast
  have inst: ?inst
    using initializeWasm_instantiate_fails [of s w c d rt b x] by blast
  have reject: ?reject
    using initializeWasm_rejected [of s w c d rt b inst r0 s0 tr0 j x] init by auto
  have expire: ?expire
    using initializeWasm_timeout [of s w c d rt b inst r0 s0 tr0] init by auto
  have call: ?call
    using POST_call_ready [of w req s resp s2 tr2 args] by blast
  have retry: ?retry
    using initializeWasm_begins [of s w] by blast
  show ?thesis
    by (intro conjI; rule together script ctor binary inst reject expire call retry)
qed


theorem initialization_never_half_ready_witness:
  "(let f = FuncOf (add (\<lambda>n. 0));
        w = healthy_world (\<lambda>k. if k = 1 then [Register f] else []);
        s' = \<lparr>goRuntimeInstance = Some 1, wasmInstance = Some 1, g_Go = True, g_goAdd = Some f\<rparr>;
        tr = [ReadFile ''./public/wasm_exec.js'', RunScript, NewGo,
              ReadFile ''./public/main.go.wasm'', Instantiate, RunModule, Tick 1];
        req = \<lparr>json = Inr (JObject [(''a'', JNumber (Fin 15)), (''b'', JNumber (Fin 7))])\<rparr>
    in initializeWasm w cold_state = (Inr (), s', tr) \<and>
       wasmInstance cold_state = None \<and> wasmInstance s' \<noteq> None \<and> ready s' \<and>
       POST w req cold_state =
         (\<lparr>status = 200, body = [(''result'', JNumber (Fin 22))]\<rparr>, s',
          tr @ [Call_goAdd [JNumber (Fin 15), JNumber (Fin 7)]]) \<and>
       Call_goAdd [JNumber (Fin 15), JNumber (Fin 7)] \<in>
         set (tr @ [Call_goAdd [JNumber (Fin 15), JNumber (Fin 7)]])) \<and>
   (readFile no_files_world ''./public/wasm_exec.js'' = Inl (ErrorObj ''ENOENT'') \<and>
    initializeWasm no_files_world cold_state =
      (Inl (ErrorObj (init_failed_prefix @ ''ENOENT'')), cold_state,
       [ReadFile ''./public/wasm_exec.js'']) \<and>
    Inl (ErrorObj (init_failed_prefix @ ''ENOENT'')) \<noteq> (Inr () :: thrown + unit) \<and>
    wasmInstance (fst (snd (initializeWasm no_files_world cold_state))) = None \<and>
    (\<exists>tr'. snd (snd (initializeWasm no_files_world cold_state)) =
       ReadFile ''./public/wasm_exec.js'' # tr')) \<and>
   (let w = (healthy_world (\<lambda>k. []))\<lparr>runScript := (\<lambda>content. (False, None))\<rparr>
    in readFile w ''./public/wasm_exec.js'' = Inr ''contents'' \<and>
       runScript w ''contents'' = (False, None) \<and> \<not> g_Go cold_state \<and>
       fst (initializeWasm w cold_state) = Inl (ErrorObj (init_failed_prefix @ msg_no_Go)) \<and>
       wasmInstance (fst (snd (initializeWasm w cold_state))) = None) \<and>
   (let w = (healthy_world (\<lambda>k. []))
              \<lparr>readFile := (\<lambda>path. if path = ''./public/main.go.wasm''
                                     then Inl (ErrorObj ''ENOENT'') else Inr ''contents'')\<rparr>
    in readFile w ''./public/wasm_exec.js'' = Inr ''contents'' \<and>
       runScript w ''contents'' = (True, None) \<and> newGo w = Inr 1 \<and>
       readFile w ''./public/main.go.wasm'' = Inl (ErrorObj ''ENOENT'') \<and>
       fst (initializeWasm w cold_state) = Inl (ErrorObj (init_failed_prefix @ ''ENOENT'')) \<and>
       wasmInstance (fst (snd (initializeWasm w cold_state))) = None) \<and>
   (let w = (healthy_world (\<lambda>k. []))
              \<lparr>instantiate := (\<lambda>wasmBytes rt. Inl (ErrorObj ''CompileError''))\<rparr>
    in readFile w ''./public/main.go.wasm'' = Inr ''contents'' \<and>
       instantiate w ''contents'' 1 = Inl (ErrorObj ''CompileError'') \<and>
       fst (initializeWasm w cold_state) =
         Inl (ErrorObj (init_failed_prefix @ ''CompileError'')) \<and>
       wasmInstance (fst (snd (initializeWasm w cold_state))) = None) \<and>
   (let f = FuncOf (add (\<lambda>n. 0));
        w = healthy_world (\<lambda>k. if k = 1 then [Register f, Reject (ErrorObj ''exit code 2'')] else [])
    in instantiate w ''contents'' 1 = Inr 1 \<and>
       Tick 1 \<in> set (snd (snd (initializeWasm w cold_state))) \<and>
       Reject (ErrorObj ''exit code 2'') \<in> set (run w 1 1 1) \<and>
       wasmInstance (fst (snd (initializeWasm w cold_state))) = None) \<and>
   (let w = healthy_world (\<lambda>k. [])
    in g_goAdd cold_state = None \<and> (\<forall>j f. Register f \<notin> set (run w 1 1 j)) \<and>
       fst (initializeWasm w cold_state) = Inl (ErrorObj (init_failed_prefix @ msg_timeout)) \<and>
       wasmInstance (fst (snd (initializeWasm w cold_state))) = None)"
  (is "?ok \<and> ?script \<and> ?ctor \<and> ?binary \<and> ?inst \<and> ?reject \<and> ?expire")
proof -
  let ?f = "FuncOf (add (\<lambda>n. 0))"
  let ?req = "\<lparr>json = Inr (JObject [(''a'', JNumber (Fin 15)), (''b'', JNumber (Fin 7))])\<rparr>"
  let ?tr = "[ReadFile ''./public/wasm_exec.js'', RunScript, NewGo,
              ReadFile ''./public/main.go.wasm'', Instantiate, RunModule, Tick 1]"
  have sum: "?f [JNumber (Fin 15), JNumber (Fin 7)] = Inr (JNumber (Fin 22))"
    using add_host_integers [of 15 7 "\<lambda>n. 0"] by (simp add: FuncOf_def small_is_host_integer)
  have ok: ?ok
  proof -
    let ?w = "healthy_world (\<lambda>k. if k = 1 then [Register ?f] else [])"
    let ?s' = "\<lparr>goRuntimeInstance = Some 1, wasmInstance = Some 1, g_Go = True,
                g_goAdd = Some ?f\<rparr>"
    have init: "initializeWasm ?w cold_state = (Inr (), ?s', ?tr)"
      by (simp add: initializeWasm_def try_initialize_def start_module_def healthy_world_def
          cold_state_def wait_goAdd_first_tick)
    have post: "POST ?w ?req cold_state =
         (\<lparr>status = 200, body = [(''result'', JNumber (Fin 22))]\<rparr>, ?s',
          ?tr @ [Call_goAdd [JNumber (Fin 15), JNumber (Fin 7)]])"
    proof -
      have "\<not> ready cold_state"
        by (simp add: ready_def cold_state_def)
      then show ?thesis
        using sum unfolding POST_unready [OF \<open>\<not> ready cold_state\<close>] init
        by (simp add: calculate_def destructure_a_b_def get_property_def starts_with_def)
    qed
    from init post
      initialization_never_half_ready
        [where w = ?w and s = cold_state and r = "Inr ()" and s' = ?s' and tr = ?tr
           and req = ?req
           and resp = "\<lparr>status = 200, body = [(''result'', JNumber (Fin 22))]\<rparr>"
           and ?s2.0 = ?s'
           and ?tr2.0 = "?tr @ [Call_goAdd [JNumber (Fin 15), JNumber (Fin 7)]]"
           and args = "[JNumber (Fin 15), JNumber (Fin 7)]"]
    show ?thesis by (simp add: Let_def cold_state_def)
  qed
  have script: ?script
    using initialization_never_half_ready
        [where w = no_files_world and s = cold_state
           and r = "Inl (ErrorObj (init_failed_prefix @ ''ENOENT''))" and s' = cold_state
           and tr = "[ReadFile ''./public/wasm_exec.js'']" and x = "ErrorObj ''ENOENT''"]
    by (simp add: no_files_world_def healthy_world_def cold_state_def
        initializeWasm_def try_initialize_def)
  have ctor: ?ctor
    using initialization_never_half_ready
        [where w = "(healthy_world (\<lambda>k. []))\<lparr>runScript := (\<lambda>content. (False, None))\<rparr>"
           and s = cold_state and c = "''contents''"]
    by (simp add: Let_def healthy_world_def cold_state_def)
  have binary: ?binary
    using initialization_never_half_ready
        [where w = "(healthy_world (\<lambda>k. []))
              \<lparr>readFile := (\<lambda>path. if path = ''./public/main.go.wasm''
                                     then Inl (ErrorObj ''ENOENT'') else Inr ''contents'')\<rparr>"
           and s = cold_state and x = "ErrorObj ''ENOENT''" and c = "''contents''"
           and d = True and rt = 1]
    by (simp add: Let_def healthy_world_def cold_state_def)
  have inst: ?inst
    using initialization_never_half_ready
        [where w = "(healthy_world (\<lambda>k. []))
              \<lparr>instantiate := (\<lambda>wasmBytes rt. Inl (ErrorObj ''CompileError''))\<rparr>"
           and s = cold_state and x = "ErrorObj ''CompileError''" and c = "''contents''"
           and d = True and rt = 1 and b = "''contents''"]
    by (simp add: Let_def healthy_world_def cold_state_def)
  have reject: ?reject
  proof -
    let ?w = "healthy_world (\<lambda>k. if k = 1 then [Register ?f, Reject (ErrorObj ''exit code 2'')] else [])"
    have init: "snd (snd (initializeWasm ?w cold_state)) = ?tr"
      by (simp add: initializeWasm_def try_initialize_def start_module_def healthy_world_def
          cold_state_def wait_goAdd_first_tick)
    from init
      initialization_never_half_ready
        [where w = ?w and s = cold_state and x = "ErrorObj ''exit code 2''"
           and c = "''contents''" and d = True and rt = 1 and b = "''contents''"
           and inst = 1 and j = 1]
    show ?thesis by (simp add: Let_def healthy_world_def cold_state_def)
  qed
  have expire: ?expire
    using initialization_never_half_ready
        [where w = "healthy_world (\<lambda>k. [])" and s = cold_state
           and c = "''contents''" and d = True and rt = 1 and b = "''contents''" and inst = 1]
    by (simp add: Let_def healthy_world_def cold_state_def)
  from ok script ctor binary inst reject expire show ?thesis by blast
qed

end
